theory Spec2Isabelle
  imports Main "HOL-Library.AList"
begin

section \<open>Strings\<close>

text \<open>
  A Python string is a sequence of code points. It is modelled by \<^typ>\<open>string\<close>, a
  character being the code point, from 0 to 255 (ASCII and the Latin-1 supplement, which
  holds the accented letters of Portuguese); strings with a code point beyond 255 are not
  modelled. On these code points the functions below are those of Python:
  \<^item> \<^verbatim>\<open>str.isspace\<close>, the characters that \<^verbatim>\<open>str.strip()\<close> removes: 9 to 13, 28 to 32,
    133 and 160 (the no-break space);
  \<^item> \<^verbatim>\<open>str.isdigit\<close>: 0 to 9 and the superscripts 178, 179 and 185;
  \<^item> \<^verbatim>\<open>str.isdecimal\<close>, the characters that \<^verbatim>\<open>int\<close> reads and the pattern
    \<^verbatim>\<open>\d\<close> matches: 0 to 9;
  \<^item> \<^verbatim>\<open>str.lower\<close>: A to Z and the capital letters 192 to 222, the sign 215 left out,
    move up by 32.
\<close>

definition isspace :: "char \<Rightarrow> bool" where
  "isspace c =
     (let n = (of_char c :: nat)
      in (9 \<le> n \<and> n \<le> 13) \<or> (28 \<le> n \<and> n \<le> 32) \<or> n = 133 \<or> n = 160)"

definition isdigit_char :: "char \<Rightarrow> bool" where
  "isdigit_char c =
     (let n = (of_char c :: nat) in (48 \<le> n \<and> n \<le> 57) \<or> n = 178 \<or> n = 179 \<or> n = 185)"

definition isdecimal_char :: "char \<Rightarrow> bool" where
  "isdecimal_char c = (let n = (of_char c :: nat) in 48 \<le> n \<and> n \<le> 57)"

definition lower_char :: "char \<Rightarrow> char" where
  "lower_char c =
     (let n = (of_char c :: nat)
      in if (65 \<le> n \<and> n \<le> 90) \<or> (192 \<le> n \<and> n \<le> 222 \<and> n \<noteq> 215)
         then char_of (n + 32) else c)"

definition strip :: "string \<Rightarrow> string" where
  "strip s = rev (dropWhile isspace (rev (dropWhile isspace s)))"

definition lower :: "string \<Rightarrow> string" where
  "lower s = map lower_char s"

text \<open>\<^verbatim>\<open>s.isdigit()\<close>: at least one character, and all of them digits.\<close>

definition isdigit :: "string \<Rightarrow> bool" where
  "isdigit s = (s \<noteq> [] \<and> list_all isdigit_char s)"

text \<open>
  \<^verbatim>\<open>int(s)\<close> and \<^verbatim>\<open>str(n)\<close>. Python's integers are unbounded, and so are the
  natural numbers here. The source passes to \<^verbatim>\<open>int\<close> a string that satisfies
  \<^verbatim>\<open>str.isdigit\<close> or a match of \<^verbatim>\<open>\d+\<close>, never a sign, an underscore or white
  space: on such a string \<^verbatim>\<open>int\<close> gives the number when every character is decimal
  and raises \<^verbatim>\<open>ValueError\<close> otherwise, as it does on a superscript digit.
\<close>

datatype error = ValueError

definition digit_val :: "char \<Rightarrow> nat" where
  "digit_val c = of_char c - 48"

definition int_of_str :: "string \<Rightarrow> nat" where
  "int_of_str s = foldl (\<lambda>n c. 10 * n + digit_val c) 0 s"

definition digit_chr :: "nat \<Rightarrow> char" where
  "digit_chr d = char_of (48 + d)"

definition py_int :: "string \<Rightarrow> error + nat" where
  "py_int s = (if s \<noteq> [] \<and> list_all isdecimal_char s then Inr (int_of_str s) else Inl ValueError)"

fun str_of_nat :: "nat \<Rightarrow> string" where
  "str_of_nat n = (if n < 10 then [digit_chr n] else str_of_nat (n div 10) @ [digit_chr (n mod 10)])"

declare str_of_nat.simps [simp del]

text \<open>
  \<^verbatim>\<open>re.search(r'\d+', s)\<close>: the leftmost maximal run of decimal digits, \<open>None\<close>
  when the string has none. The result is \<^verbatim>\<open>match.group()\<close>.
\<close>

definition re_search_digits :: "string \<Rightarrow> string option" where
  "re_search_digits s =
     (case dropWhile (\<lambda>c. \<not> isdecimal_char c) s of
        [] \<Rightarrow> None
      | r # rs \<Rightarrow> Some (takeWhile isdecimal_char (r # rs)))"

text \<open>\<^verbatim>\<open>p in s\<close> on strings: \<open>p\<close> occurs in \<open>s\<close> as a contiguous substring.\<close>

fun str_in :: "string \<Rightarrow> string \<Rightarrow> bool" where
  "str_in p [] = (p = [])"
| "str_in p (c # cs) = (take (length p) (c # cs) = p \<or> str_in p cs)"

section \<open>The class normaliser\<close>

text \<open>
  A cell of a data frame is \<open>None\<close> when \<^verbatim>\<open>pd.isna\<close> holds of it (\<^verbatim>\<open>None\<close>,
  \<^verbatim>\<open>NaN\<close>) and \<open>Some s\<close> otherwise, \<open>s\<close> being \<^verbatim>\<open>str(valor)\<close>.
\<close>

type_synonym cell = "string option"

definition valores_invalidos :: "string list" where
  "valores_invalidos = [''n/a'', ''nan'', ''none'', '''']"

text \<open>
  \<^verbatim>\<open>extrair_classe\<close>, the function that \<^verbatim>\<open>normalizar_classes\<close> applies to a
  column. It returns a cell or raises: \<open>Inr\<close> is the value returned, \<open>Inl\<close> the
  exception.
\<close>

definition extrair_classe :: "cell \<Rightarrow> error + cell" where
  "extrair_classe valor =
     (case valor of
        None \<Rightarrow> Inr None
      | Some v \<Rightarrow>
          (let valor_str = strip v in
           if lower valor_str \<in> set valores_invalidos then Inr None
           else if isdigit valor_str then
             (case py_int valor_str of
                Inl e \<Rightarrow> Inl e
              | Inr n \<Rightarrow> Inr (Some (str_of_nat n)))
           else (case re_search_digits valor_str of
                   Some m \<Rightarrow>
                     (case py_int m of
                        Inl e \<Rightarrow> Inl e
                      | Inr num \<Rightarrow>
                          if 1 \<le> num \<and> num \<le> 45 then Inr (Some (str_of_nat num))
                          else Inr (Some valor_str))
                 | None \<Rightarrow> Inr (Some valor_str))))"

text \<open>
  \<^verbatim>\<open>normalizar_valor_classe\<close>, the local function of \<^verbatim>\<open>filtrar_por_classes\<close>
  that normalises the values of the class column.
\<close>

definition normalizar_valor_classe :: "cell \<Rightarrow> error + cell" where
  "normalizar_valor_classe valor =
     (case valor of
        None \<Rightarrow> Inr None
      | Some v \<Rightarrow>
          (let valor_str = strip v in
           if lower valor_str \<in> set valores_invalidos then Inr None
           else if isdigit valor_str then
             (case py_int valor_str of
                Inl e \<Rightarrow> Inl e
              | Inr n \<Rightarrow> Inr (Some (str_of_nat n)))
           else (case re_search_digits valor_str of
                   Some m \<Rightarrow>
                     (case py_int m of
                        Inl e \<Rightarrow> Inl e
                      | Inr num \<Rightarrow>
                          if 1 \<le> num \<and> num \<le> 45 then Inr (Some (str_of_nat num))
                          else Inr (Some valor_str))
                 | None \<Rightarrow> Inr (Some valor_str))))"

text \<open>
  The loop of \<^verbatim>\<open>filtrar_por_classes\<close> over \<^verbatim>\<open>classes_desejadas\<close>.
  \<open>classe_desejada_normalizada c\<close> is what one token appends to
  \<^verbatim>\<open>classes_normalizadas\<close>, \<open>None\<close> when the token appends nothing; the loop
  stops at the first token that raises.
\<close>

definition classe_desejada_normalizada :: "string \<Rightarrow> error + string option" where
  "classe_desejada_normalizada c =
     (if c \<noteq> [] \<and> strip c \<noteq> [] then
        (let c_str = strip c in
         if isdigit c_str then
           (case py_int c_str of
              Inl e \<Rightarrow> Inl e
            | Inr n \<Rightarrow> Inr (Some (str_of_nat n)))
         else (case re_search_digits c_str of
                 Some m \<Rightarrow>
                   (case py_int m of
                      Inl e \<Rightarrow> Inl e
                    | Inr num \<Rightarrow>
                        if 1 \<le> num \<and> num \<le> 45 then Inr (Some (str_of_nat num)) else Inr None)
               | None \<Rightarrow> Inr (Some c_str)))
      else Inr None)"

fun normalizar_classes_desejadas :: "string list \<Rightarrow> error + string list" where
  "normalizar_classes_desejadas [] = Inr []"
| "normalizar_classes_desejadas (c # cs) =
     (case classe_desejada_normalizada c of
        Inl e \<Rightarrow> Inl e
      | Inr x \<Rightarrow>
          (case normalizar_classes_desejadas cs of
             Inl e \<Rightarrow> Inl e
           | Inr ns \<Rightarrow> Inr (case x of None \<Rightarrow> ns | Some n \<Rightarrow> n # ns)))"

section \<open>Data frames\<close>

text \<open>
  A data frame is its ordered column names and its rows, in order; a row is the
  dictionary from column name to cell, as an association list. A column name that a row
  does not hold reads as a missing value. The row labels of pandas are not modelled.
\<close>

type_synonym row = "(string \<times> cell) list"

record dataframe =
  columns :: "string list"
  rows :: "row list"

definition get_cell :: "row \<Rightarrow> string \<Rightarrow> cell" where
  "get_cell r col = (case map_of r col of Some v \<Rightarrow> v | None \<Rightarrow> None)"

text \<open>\<^verbatim>\<open>df.empty\<close>: one of the two axes has length 0.\<close>

definition empty_df :: "dataframe \<Rightarrow> bool" where
  "empty_df df = (columns df = [] \<or> rows df = [])"

text \<open>
  \<^verbatim>\<open>Series.apply(f)\<close> on the rows, for a function that may raise: the values in row
  order, or the exception of the first row on which \<open>f\<close> raises.
\<close>

fun apply_series :: "(row \<Rightarrow> error + cell) \<Rightarrow> row list \<Rightarrow> error + cell list" where
  "apply_series f [] = Inr []"
| "apply_series f (r # rs) =
     (case f r of
        Inl e \<Rightarrow> Inl e
      | Inr v \<Rightarrow>
          (case apply_series f rs of
             Inl e \<Rightarrow> Inl e
           | Inr vs \<Rightarrow> Inr (v # vs)))"

text \<open>
  \<^verbatim>\<open>df[name] = valores\<close>, one value for each row: the column is replaced, or added
  last when new.
\<close>

definition set_column :: "dataframe \<Rightarrow> string \<Rightarrow> cell list \<Rightarrow> dataframe" where
  "set_column df name valores =
     \<lparr>columns = (if name \<in> set (columns df) then columns df else columns df @ [name]),
      rows = map2 (\<lambda>r v. AList.update name v r) (rows df) valores\<rparr>"

text \<open>\<^verbatim>\<open>df.drop(columns=[name])\<close>.\<close>

definition drop_column :: "dataframe \<Rightarrow> string \<Rightarrow> dataframe" where
  "drop_column df name =
     \<lparr>columns = removeAll name (columns df), rows = map (AList.delete name) (rows df)\<rparr>"

text \<open>\<^verbatim>\<open>df[mask]\<close>, the mask given by a predicate on the rows.\<close>

definition select_rows :: "dataframe \<Rightarrow> (row \<Rightarrow> bool) \<Rightarrow> dataframe" where
  "select_rows df keep = \<lparr>columns = columns df, rows = filter keep (rows df)\<rparr>"

text \<open>\<^verbatim>\<open>Series.isin(values)\<close> on one cell: a missing value is in no list of strings.\<close>

definition isin :: "cell \<Rightarrow> string list \<Rightarrow> bool" where
  "isin v vals = (case v of None \<Rightarrow> False | Some s \<Rightarrow> s \<in> set vals)"

section \<open>The class filter\<close>

text \<open>
  \<^verbatim>\<open>filtrar_por_classes\<close> returns a frame or raises what the normalisation of a
  requested token or of a column value raises.
\<close>

definition filtrar_por_classes ::
  "dataframe \<Rightarrow> string list \<Rightarrow> string \<Rightarrow> error + dataframe" where
  "filtrar_por_classes df classes_desejadas coluna_classe =
     (if classes_desejadas = [] \<or> coluna_classe \<notin> set (columns df) then Inr df
      else if empty_df df then Inr df
      else
        (case normalizar_classes_desejadas classes_desejadas of
           Inl e \<Rightarrow> Inl e
         | Inr classes_normalizadas \<Rightarrow>
             if classes_normalizadas = [] then Inr df
             else
               (case apply_series (\<lambda>r. normalizar_valor_classe (get_cell r coluna_classe))
                       (rows df) of
                  Inl e \<Rightarrow> Inl e
                | Inr valores \<Rightarrow>
                    (let normalizada = coluna_classe @ ''_normalizada'';
                         df_filtrado = set_column df normalizada valores;
                         df_resultado = select_rows df_filtrado
                                          (\<lambda>r. isin (get_cell r normalizada) classes_normalizadas)
                     in if normalizada \<in> set (columns df_resultado)
                        then Inr (drop_column df_resultado normalizada)
                        else Inr df_resultado))))"

section \<open>The keyword filter\<close>

text \<open>\<^verbatim>\<open>Series.fillna('')\<close> and \<^verbatim>\<open>Series.astype(str)\<close> on one cell.\<close>

definition fillna :: "cell \<Rightarrow> string \<Rightarrow> cell" where
  "fillna v d = (case v of None \<Rightarrow> Some d | Some s \<Rightarrow> Some s)"

definition astype_str :: "cell \<Rightarrow> string" where
  "astype_str v = (case v of None \<Rightarrow> ''nan'' | Some s \<Rightarrow> s)"

text \<open>
  \<^verbatim>\<open>str.contains(padrao, case=False, regex=True)\<close> for the pattern
  \<^verbatim>\<open>'|'.join(re.escape(p) for p in palavras)\<close>. An escaped word matches itself and
  nothing else, so the pattern is kept as the list of its alternatives; the search succeeds
  when one of them occurs in the text, letter case ignored.
\<close>

definition str_contains :: "string list \<Rightarrow> string \<Rightarrow> bool" where
  "str_contains padrao s = list_ex (\<lambda>p. str_in (lower p) (lower s)) padrao"

definition filtrar_por_palavras_chave :: "dataframe \<Rightarrow> string list \<Rightarrow> string \<Rightarrow> dataframe" where
  "filtrar_por_palavras_chave df palavras_chave coluna_especificacao =
     (if palavras_chave = [] \<or> coluna_especificacao \<notin> set (columns df) then df
      else if empty_df df then df
      else
        (let palavras_lower =
               map (\<lambda>p. strip (lower p)) (filter (\<lambda>p. p \<noteq> [] \<and> strip p \<noteq> []) palavras_chave)
         in if palavras_lower = [] then df
            else
              (let padrao = palavras_lower;
                   df_filtrado = set_column df coluna_especificacao
                                   (map (\<lambda>r. fillna (get_cell r coluna_especificacao) [])
                                      (rows df))
               in select_rows df_filtrado
                    (\<lambda>r. str_contains padrao
                            (lower (astype_str (get_cell r coluna_especificacao)))))))"

section \<open>The combined filter\<close>

text \<open>
  \<^verbatim>\<open>classes_desejadas\<close> and \<^verbatim>\<open>palavras_chave\<close> default to \<^verbatim>\<open>None\<close>;
  the copies of the frame are the frame itself. \<^verbatim>\<open>filtrar_processos\<close> calls the two
  filters, and whether it calls them is part of what it does: it returns its result together
  with the calls it made, in order, or raises what the class filter raises.
\<close>

datatype chamada = Chama_filtrar_por_classes | Chama_filtrar_por_palavras_chave

definition filtrar_processos ::
  "dataframe \<Rightarrow> string list option \<Rightarrow> string list option \<Rightarrow> string \<Rightarrow> string
     \<Rightarrow> error + dataframe \<times> chamada list" where
  "filtrar_processos df classes_desejadas palavras_chave coluna_classe coluna_especificacao =
     (if empty_df df then Inr (df, [])
      else
        (case (case classes_desejadas of
                 None \<Rightarrow> Inr (df, [])
               | Some cs \<Rightarrow>
                   if cs \<noteq> [] then
                     (case filtrar_por_classes df cs coluna_classe of
                        Inl e \<Rightarrow> Inl e
                      | Inr d \<Rightarrow> Inr (d, [Chama_filtrar_por_classes]))
                   else Inr (df, [])) of
           Inl e \<Rightarrow> Inl e
         | Inr (df_filtrado, chamadas) \<Rightarrow>
             if (case classes_desejadas of None \<Rightarrow> False | Some cs \<Rightarrow> cs \<noteq> [])
                \<and> empty_df df_filtrado
             then Inr (df_filtrado, chamadas)
             else (case palavras_chave of
                     None \<Rightarrow> Inr (df_filtrado, chamadas)
                   | Some ps \<Rightarrow>
                       if ps \<noteq> []
                       then Inr (filtrar_por_palavras_chave df_filtrado ps coluna_especificacao,
                                 chamadas @ [Chama_filtrar_por_palavras_chave])
                       else Inr (df_filtrado, chamadas))))"

section \<open>The XML tree\<close>

text \<open>
  An \<^verbatim>\<open>xml.etree.ElementTree.Element\<close>: its tag, its attributes, its text
  (\<open>None\<close> when the element has none) and its children in document order.
\<close>

datatype element =
  Element (tag: string) (attrib: "(string \<times> string) list") (elem_text: "string option")
    (children: "element list")

text \<open>The descendants of an element in document order, the element itself left out.\<close>

fun iter_desc :: "element \<Rightarrow> element list" where
  "iter_desc (Element t a x cs) = concat (map (\<lambda>c. c # iter_desc c) cs)"

text \<open>
  \<^verbatim>\<open>e.findall('.//name')\<close>, \<^verbatim>\<open>e.find('.//name')\<close>, \<^verbatim>\<open>e.find('name')\<close>
  and \<^verbatim>\<open>e.find('.//a/b')\<close>.
\<close>

definition findall_desc :: "element \<Rightarrow> string \<Rightarrow> element list" where
  "findall_desc e name = filter (\<lambda>x. tag x = name) (iter_desc e)"

definition find_desc :: "element \<Rightarrow> string \<Rightarrow> element option" where
  "find_desc e name = (case findall_desc e name of [] \<Rightarrow> None | x # _ \<Rightarrow> Some x)"

definition find_child :: "element \<Rightarrow> string \<Rightarrow> element option" where
  "find_child e name = List.find (\<lambda>c. tag c = name) (children e)"

definition find_desc_child :: "element \<Rightarrow> string \<Rightarrow> string \<Rightarrow> element option" where
  "find_desc_child e a b =
     (case concat (map (\<lambda>m. filter (\<lambda>c. tag c = b) (children m)) (findall_desc e a)) of
        [] \<Rightarrow> None
      | x # _ \<Rightarrow> Some x)"

text \<open>\<^verbatim>\<open>e.get(key, default)\<close> and \<^verbatim>\<open>e.get(key, None)\<close>.\<close>

definition attr_get :: "element \<Rightarrow> string \<Rightarrow> string \<Rightarrow> string" where
  "attr_get e k d = (case map_of (attrib e) k of Some v \<Rightarrow> v | None \<Rightarrow> d)"

definition attr_get_opt :: "element \<Rightarrow> string \<Rightarrow> string option" where
  "attr_get_opt e k = map_of (attrib e) k"

text \<open>\<^verbatim>\<open>x if x else d\<close> for an optional string: \<^verbatim>\<open>None\<close> and \<^verbatim>\<open>''\<close> are false.\<close>

definition or_default :: "string option \<Rightarrow> string \<Rightarrow> string" where
  "or_default x d = (case x of None \<Rightarrow> d | Some s \<Rightarrow> if s \<noteq> [] then s else d)"

section \<open>XML extraction\<close>

text \<open>The process-level fields read by \<^verbatim>\<open>_extrair_dados_processo_inpi\<close>.\<close>

definition extrair_numero_processo :: "element \<Rightarrow> string" where
  "extrair_numero_processo processo = attr_get processo ''numero'' []"

definition extrair_data_concessao :: "element \<Rightarrow> string" where
  "extrair_data_concessao processo =
     attr_get processo ''data-concessao'' (attr_get processo ''data_concessao'' [])"

definition extrair_titular :: "element \<Rightarrow> string option" where
  "extrair_titular processo =
     (case findall_desc processo ''titular'' of
        [] \<Rightarrow> None
      | titular_elem # _ \<Rightarrow>
          (let nome = attr_get titular_elem ''nome-razao-social'' [] in
           if nome \<noteq> [] then Some nome else elem_text titular_elem))"

definition extrair_marca :: "element \<Rightarrow> string option" where
  "extrair_marca processo =
     (case find_desc_child processo ''marca'' ''nome'' of
        Some marca_elem \<Rightarrow> elem_text marca_elem
      | None \<Rightarrow>
          (case find_desc processo ''marca'' of
             None \<Rightarrow> None
           | Some marca_elem \<Rightarrow>
               (case find_child marca_elem ''nome'' of
                  None \<Rightarrow> None
                | Some nome_elem \<Rightarrow> elem_text nome_elem)))"

definition extrair_procurador :: "element \<Rightarrow> string option" where
  "extrair_procurador processo =
     (case find_desc processo ''procurador'' of
        None \<Rightarrow> None
      | Some procurador_elem \<Rightarrow> elem_text procurador_elem)"

text \<open>
  A record is the dictionary the source builds, as an association list in the source's
  key order. \<open>dict_classe\<close> is the dictionary of a granted class, \<open>dict_sem_classe\<close>
  the one of a granted process without granted class.
\<close>

type_synonym registro = "(string \<times> string) list"

definition child_text :: "element \<Rightarrow> string \<Rightarrow> string option" where
  "child_text e name = (case find_child e name of None \<Rightarrow> None | Some c \<Rightarrow> elem_text c)"

definition dict_classe :: "element \<Rightarrow> element \<Rightarrow> string \<Rightarrow> registro" where
  "dict_classe processo classe_nice status_text =
     [(''numero_processo'', extrair_numero_processo processo),
      (''marca'', or_default (extrair_marca processo) ''N/A''),
      (''classe'', or_default (Some (attr_get classe_nice ''codigo'' [])) ''N/A''),
      (''titular'', or_default (extrair_titular processo) ''N/A''),
      (''procurador'', or_default (extrair_procurador processo) []),
      (''data_concessao'', or_default (Some (extrair_data_concessao processo)) []),
      (''status_classe'', or_default (Some status_text) ''Deferido''),
      (''especificacao'', or_default (child_text classe_nice ''especificacao'') []),
      (''traducao_especificacao'',
         or_default (child_text classe_nice ''traducao-especificacao'') [])]"

definition dict_sem_classe :: "element \<Rightarrow> registro" where
  "dict_sem_classe processo =
     [(''numero_processo'', extrair_numero_processo processo),
      (''marca'', or_default (extrair_marca processo) ''N/A''),
      (''classe'', ''N/A''),
      (''titular'', or_default (extrair_titular processo) ''N/A''),
      (''procurador'', or_default (extrair_procurador processo) []),
      (''data_concessao'', or_default (Some (extrair_data_concessao processo)) []),
      (''status_classe'', ''Concedido''),
      (''especificacao'', []),
      (''traducao_especificacao'', [])]"

text \<open>
  The loop over \<^verbatim>\<open>classes_nice\<close>: one dictionary for every class whose
  \<^verbatim>\<open>status\<close> child has a text that is not empty and holds \<^verbatim>\<open>deferid\<close> once
  stripped and lowered.
\<close>

fun loop_classes_nice :: "element \<Rightarrow> element list \<Rightarrow> registro list" where
  "loop_classes_nice processo [] = []"
| "loop_classes_nice processo (classe_nice # resto) =
     (case find_child classe_nice ''status'' of
        None \<Rightarrow> loop_classes_nice processo resto
      | Some status_classe \<Rightarrow>
          (case elem_text status_classe of
             None \<Rightarrow> loop_classes_nice processo resto
           | Some t \<Rightarrow>
               if t \<noteq> [] \<and> str_in ''deferid'' (lower (strip t))
               then dict_classe processo classe_nice t # loop_classes_nice processo resto
               else loop_classes_nice processo resto))"

definition extrair_dados_processo_inpi :: "element \<Rightarrow> registro list" where
  "extrair_dados_processo_inpi processo =
     (let processos_classe = loop_classes_nice processo (findall_desc processo ''classe-nice'')
      in if processos_classe = [] \<and> extrair_numero_processo processo \<noteq> []
         then processos_classe @ [dict_sem_classe processo]
         else processos_classe)"

text \<open>
  The scan of the dispatches of one process in \<^verbatim>\<open>processar_xml\<close>: it stops at the
  first one whose code is \<^verbatim>\<open>IPAS158\<close>.
\<close>

fun tem_concessao :: "element list \<Rightarrow> bool" where
  "tem_concessao [] = False"
| "tem_concessao (despacho # despachos) =
     (if attr_get despacho ''codigo'' [] = ''IPAS158'' then True else tem_concessao despachos)"

text \<open>What one process adds to \<^verbatim>\<open>processos\<close>, and the loop over the processes.\<close>

definition dados_do_processo :: "element \<Rightarrow> registro list" where
  "dados_do_processo processo =
     (if tem_concessao (findall_desc processo ''despacho'')
      then extrair_dados_processo_inpi processo else [])"

fun loop_processos :: "element list \<Rightarrow> registro list" where
  "loop_processos [] = []"
| "loop_processos (processo # resto) = dados_do_processo processo @ loop_processos resto"

definition numero_revista :: "element \<Rightarrow> string option" where
  "numero_revista root =
     (if lower (tag root) = ''revista'' then attr_get_opt root ''numero''
      else (case find_desc root ''revista'' of
              None \<Rightarrow> None
            | Some revista_elem \<Rightarrow> attr_get_opt revista_elem ''numero''))"

text \<open>
  \<^verbatim>\<open>pd.DataFrame(processos)\<close> for a list of dictionaries that all have the keys of
  the first one, as those of the extraction do, and \<^verbatim>\<open>pd.DataFrame()\<close> for none.
\<close>

definition DataFrame :: "registro list \<Rightarrow> dataframe" where
  "DataFrame processos =
     (case processos of
        [] \<Rightarrow> \<lparr>columns = [], rows = []\<rparr>
      | d # _ \<Rightarrow> \<lparr>columns = map fst d, rows = map (map (\<lambda>(k, v). (k, Some v))) processos\<rparr>)"

text \<open>
  \<^verbatim>\<open>processar_xml\<close> on the parsed tree. A document that does not parse is the
  only failure of the source and happens before the tree exists.
\<close>

definition processar_xml :: "element \<Rightarrow> dataframe \<times> string option" where
  "processar_xml root =
     (DataFrame (loop_processos (findall_desc root ''processo'')), numero_revista root)"

section \<open>Notions of the specification and example inputs\<close>

text \<open>A string of digits without its leading zeros; \<open>0\<close> when nothing else is left.\<close>

definition sem_zeros_a_esquerda :: "string \<Rightarrow> string" where
  "sem_zeros_a_esquerda s =
     (case dropWhile (\<lambda>c. c = CHR ''0'') s of [] \<Rightarrow> ''0'' | r # rs \<Rightarrow> r # rs)"

text \<open>
  A classification node is granted when its status sub-node exists and has a text that is
  not empty and whose lowercased, trimmed form contains \<^verbatim>\<open>deferid\<close>.
\<close>

definition classe_deferida :: "element \<Rightarrow> bool" where
  "classe_deferida c =
     (case find_child c ''status'' of
        None \<Rightarrow> False
      | Some st \<Rightarrow>
          (case elem_text st of
             None \<Rightarrow> False
           | Some t \<Rightarrow> t \<noteq> [] \<and> str_in ''deferid'' (strip (lower t))))"

definition status_da_classe :: "element \<Rightarrow> string" where
  "status_da_classe c = or_default (child_text c ''status'') []"

text \<open>
  A trimmed token that is \<^verbatim>\<open>n/a\<close>, \<^verbatim>\<open>nan\<close> or \<^verbatim>\<open>none\<close> in any letter case, and a
  trimmed token whose first run of digits is a number out of 1 to 45.
\<close>

definition valor_invalido_nomeado :: "string \<Rightarrow> bool" where
  "valor_invalido_nomeado t = (lower t \<in> set [''n/a'', ''nan'', ''none''])"

definition fora_do_intervalo :: "string \<Rightarrow> bool" where
  "fora_do_intervalo t =
     (case re_search_digits t of
        None \<Rightarrow> False
      | Some m \<Rightarrow> \<not> (1 \<le> int_of_str m \<and> int_of_str m \<le> 45))"

text \<open>The specification text of a row, a missing value read as the empty string.\<close>

definition texto_da_celula :: "row \<Rightarrow> string \<Rightarrow> string" where
  "texto_da_celula r col = (case get_cell r col of None \<Rightarrow> [] | Some s \<Rightarrow> s)"

text \<open>A keyword is blank when nothing is left of it once trimmed.\<close>

definition palavra_em_branco :: "string \<Rightarrow> bool" where
  "palavra_em_branco p = (strip p = [])"

text \<open>
  A gazette with one process: one dispatch of code \<^verbatim>\<open>IPAS158\<close> and three
  classification nodes, of status \<^verbatim>\<open>Deferida\<close>, \<^verbatim>\<open>Indeferido\<close> and
  \<^verbatim>\<open>Deferida\<close>.
\<close>

definition exemplo_classe_nice :: "string \<Rightarrow> string \<Rightarrow> string \<Rightarrow> element" where
  "exemplo_classe_nice codigo status espec =
     Element ''classe-nice'' [(''codigo'', codigo)] None
       [Element ''especificacao'' [] (Some espec) [], Element ''status'' [] (Some status) []]"

definition exemplo_processo :: element where
  "exemplo_processo =
     Element ''processo'' [(''numero'', ''900100200''), (''data-concessao'', ''03/11/2026'')] None
       [Element ''despachos'' [] None
          [Element ''despacho'' [(''codigo'', ''IPAS158'')] None []],
        Element ''titulares'' [] None
          [Element ''titular'' [(''nome-razao-social'', ''ACME LTDA'')] None []],
        Element ''marca'' [] None [Element ''nome'' [] (Some ''ACME'') []],
        Element ''lista-classe-nice'' [] None
          [exemplo_classe_nice ''08'' ''Deferida'' ''ferramentas manuais'',
           exemplo_classe_nice ''16'' ''Indeferido'' ''papel'',
           exemplo_classe_nice ''35'' ''Deferida'' ''comercio'']]"

definition exemplo_revista :: element where
  "exemplo_revista = Element ''revista'' [(''numero'', ''2800'')] None [exemplo_processo]"

text \<open>
  Two granted processes without classification node: the first has a process number, the
  second has none.
\<close>

definition exemplo_processo_sem_classe :: element where
  "exemplo_processo_sem_classe =
     Element ''processo'' [(''numero'', ''900100300'')] None
       [Element ''despachos'' [] None
          [Element ''despacho'' [(''codigo'', ''IPAS158'')] None []]]"

definition exemplo_processo_sem_numero :: element where
  "exemplo_processo_sem_numero =
     Element ''processo'' [] None
       [Element ''despachos'' [] None
          [Element ''despacho'' [(''codigo'', ''IPAS158'')] None []]]"

text \<open>
  A process whose only dispatch has another code, in lower case
  \<^verbatim>\<open>ipas158\<close>, and whose classification node has the status \<^verbatim>\<open>Deferida\<close>.
\<close>

definition exemplo_processo_sem_concessao :: element where
  "exemplo_processo_sem_concessao =
     Element ''processo'' [(''numero'', ''900100400'')] None
       [Element ''despachos'' [] None
          [Element ''despacho'' [(''codigo'', ''ipas158'')] None []],
        Element ''lista-classe-nice'' [] None
          [exemplo_classe_nice ''08'' ''Deferida'' ''ferramentas manuais'']]"

text \<open>
  Two record sets built from \<open>exemplo_row\<close>. The first specification of
  \<open>exemplo_df_acentos\<close> is \<^verbatim>\<open>ILUMINACAO\<close> written with the capital cedilla (199)
  and the capital a with tilde (195).
\<close>

definition exemplo_row :: "string \<Rightarrow> cell \<Rightarrow> row" where
  "exemplo_row c e = [(''numero_processo'', Some ''900100200''), (''classe'', Some c),
                      (''especificacao'', e)]"

definition exemplo_df_acentos :: dataframe where
  "exemplo_df_acentos =
     \<lparr>columns = [''numero_processo'', ''classe'', ''especificacao''],
      rows = [exemplo_row ''11'' (Some (''ILUMINA'' @ [CHR 0xC7, CHR 0xC3] @ ''O'')),
              exemplo_row ''09'' (Some ''telefone'')]\<rparr>"

definition exemplo_df :: dataframe where
  "exemplo_df =
     \<lparr>columns = [''numero_processo'', ''classe'', ''especificacao''],
      rows = [exemplo_row ''03'' (Some ''Ferramentas manuais''),
              exemplo_row ''Cl. 99'' None,
              exemplo_row ''N/A'' (Some ''papel'')]\<rparr>"

section \<open>Properties of the string functions\<close>

lemma decimal_is_digit: "isdecimal_char c \<Longrightarrow> isdigit_char c"
  by (simp add: isdecimal_char_def isdigit_char_def Let_def)


lemma digit_chr_digit_val:
  "isdecimal_char c \<Longrightarrow> digit_chr (digit_val c) = c"
  by (auto simp: isdecimal_char_def digit_chr_def digit_val_def Let_def)

lemma digit_val_less: "isdecimal_char c \<Longrightarrow> digit_val c < 10"
  by (auto simp: isdecimal_char_def digit_val_def Let_def)


lemma lower_char_digit: "isdigit_char c \<Longrightarrow> lower_char c = c"
  by (auto simp: isdigit_char_def lower_char_def Let_def)

lemma isspace_lower_char: "isspace (lower_char c) = isspace c"
  by (auto simp: isspace_def lower_char_def Let_def)



lemma int_of_str_snoc: "int_of_str (s @ [c]) = 10 * int_of_str s + digit_val c"
  by (simp add: int_of_str_def)






lemma lower_digits: "list_all isdigit_char s \<Longrightarrow> lower s = s"
  by (induction s) (simp_all add: lower_def lower_char_digit)

lemma digits_not_invalid:
  assumes "isdigit s" shows "lower s \<notin> set valores_invalidos"
proof -
  from assms have d: "list_all isdigit_char s" and n: "s \<noteq> []" by (simp_all add: isdigit_def)
  have "\<not> list_all isdigit_char ''n/a''" "\<not> list_all isdigit_char ''nan''"
    "\<not> list_all isdigit_char ''none''"
    by (simp_all add: isdigit_char_def)
  with d n show ?thesis by (auto simp: lower_digits valores_invalidos_def)
qed

lemma lower_strip: "lower (strip t) = strip (lower t)"
proof -
  have d: "dropWhile isspace (map lower_char xs) = map lower_char (dropWhile isspace xs)" for xs
    by (induction xs) (simp_all add: isspace_lower_char)
  show ?thesis by (simp add: lower_def strip_def rev_map d)
qed

lemma str_in_iff: "str_in p s \<longleftrightarrow> (\<exists>a b. s = a @ p @ b)"
proof (induction s)
  case Nil
  then show ?case by auto
next
  case (Cons c cs)
  have pre: "take (length p) (c # cs) = p \<longleftrightarrow> (\<exists>b. c # cs = p @ b)"
    by (metis append_eq_conv_conj append_take_drop_id)
  have "(\<exists>a b. c # cs = a @ p @ b) \<longleftrightarrow> (\<exists>b. c # cs = p @ b) \<or> (\<exists>a b. cs = a @ p @ b)"
  proof
    assume "\<exists>a b. c # cs = a @ p @ b"
    then obtain a b where ab: "c # cs = a @ p @ b" by blast
    show "(\<exists>b. c # cs = p @ b) \<or> (\<exists>a b. cs = a @ p @ b)"
    proof (cases a)
      case Nil
      with ab show ?thesis by auto
    next
      case (Cons x xs)
      with ab have "cs = xs @ p @ b" by simp
      then show ?thesis by blast
    qed
  next
    assume "(\<exists>b. c # cs = p @ b) \<or> (\<exists>a b. cs = a @ p @ b)"
    then show "\<exists>a b. c # cs = a @ p @ b"
    proof
      assume "\<exists>b. c # cs = p @ b"
      then obtain b where "c # cs = [] @ p @ b" by auto
      then show ?thesis by blast
    next
      assume "\<exists>a b. cs = a @ p @ b"
      then obtain a b where "c # cs = (c # a) @ p @ b" by auto
      then show ?thesis by blast
    qed
  qed
  with Cons pre show ?case by simp
qed

section \<open>Properties of the class normaliser\<close>

lemma normalizar_valor_classe_eq: "normalizar_valor_classe = extrair_classe"
  by (rule ext) (simp add: normalizar_valor_classe_def extrair_classe_def)

lemma decimals_are_digits: "list_all isdecimal_char s \<Longrightarrow> list_all isdigit_char s"
  by (simp add: list_all_iff decimal_is_digit)





lemma int_of_str_zero: "int_of_str (CHR ''0'' # s) = int_of_str s"
  by (simp add: int_of_str_def digit_val_def)

lemma int_of_str_Nil: "int_of_str [] = 0"
  by (simp add: int_of_str_def)

lemma str_of_nat_zero: "str_of_nat 0 = ''0''"
  by code_simp

lemma str_of_nat_int_of_str_nz:
  "list_all isdecimal_char s \<Longrightarrow> s \<noteq> [] \<Longrightarrow> hd s \<noteq> CHR ''0'' \<Longrightarrow> str_of_nat (int_of_str s) = s"
proof (induction s rule: rev_induct)
  case Nil
  then show ?case by simp
next
  case (snoc c xs)
  from snoc.prems have c: "isdecimal_char c" and xs: "list_all isdecimal_char xs" by simp_all
  show ?case
  proof (cases "xs = []")
    case True
    with c show ?thesis
      by (simp add: int_of_str_def str_of_nat.simps [of "digit_val c"] digit_val_less
          digit_chr_digit_val)
  next
    case False
    with snoc.prems have "hd xs \<noteq> CHR ''0''" by simp
    with snoc.IH xs False have ih: "str_of_nat (int_of_str xs) = xs" by simp
    have "int_of_str xs \<noteq> 0"
    proof
      assume "int_of_str xs = 0"
      with ih have "xs = ''0''" by (simp add: str_of_nat_zero)
      with \<open>hd xs \<noteq> CHR ''0''\<close> show False by simp
    qed
    moreover from c have "digit_val c < 10" by (rule digit_val_less)
    ultimately have "\<not> 10 * int_of_str xs + digit_val c < 10"
      and "(10 * int_of_str xs + digit_val c) div 10 = int_of_str xs"
      and "(10 * int_of_str xs + digit_val c) mod 10 = digit_val c"
      by simp_all
    then show ?thesis
      using c ih
      by (simp add: int_of_str_snoc str_of_nat.simps [of "10 * int_of_str xs + digit_val c"]
          digit_chr_digit_val)
  qed
qed

lemma str_of_nat_int_of_str:
  "list_all isdecimal_char s \<Longrightarrow> s \<noteq> [] \<Longrightarrow> str_of_nat (int_of_str s) = sem_zeros_a_esquerda s"
proof (induction s)
  case Nil
  then show ?case by simp
next
  case (Cons c cs)
  show ?case
  proof (cases "c = CHR ''0''")
    case True
    show ?thesis
    proof (cases "cs = []")
      case True
      with \<open>c = CHR ''0''\<close> show ?thesis
        by (simp add: int_of_str_zero int_of_str_Nil sem_zeros_a_esquerda_def str_of_nat_zero)
    next
      case False
      with Cons True show ?thesis
        by (simp add: int_of_str_zero sem_zeros_a_esquerda_def)
    qed
  next
    case False
    with Cons.prems have "str_of_nat (int_of_str (c # cs)) = c # cs"
      by (intro str_of_nat_int_of_str_nz) simp_all
    with False show ?thesis by (simp add: sem_zeros_a_esquerda_def)
  qed
qed

lemma re_search_digits_None: "re_search_digits s = None \<longleftrightarrow> (\<forall>c\<in>set s. \<not> isdecimal_char c)"
proof -
  have "re_search_digits s = None \<longleftrightarrow> dropWhile (\<lambda>c. \<not> isdecimal_char c) s = []"
    unfolding re_search_digits_def by (simp split: list.split del: dropWhile_eq_Nil_conv)
  then show ?thesis by (simp add: dropWhile_eq_Nil_conv)
qed

lemma re_search_digits_Some:
  "re_search_digits s = Some m \<longleftrightarrow>
     (\<exists>pre post. s = pre @ m @ post \<and> (\<forall>c\<in>set pre. \<not> isdecimal_char c) \<and> m \<noteq> []
        \<and> list_all isdecimal_char m \<and> (post = [] \<or> \<not> isdecimal_char (hd post)))"
proof
  assume a: "re_search_digits s = Some m"
  define pre where "pre = takeWhile (\<lambda>c. \<not> isdecimal_char c) s"
  define r where "r = dropWhile (\<lambda>c. \<not> isdecimal_char c) s"
  define post where "post = dropWhile isdecimal_char r"
  from a have r: "r \<noteq> []" and m: "m = takeWhile isdecimal_char r"
    unfolding r_def
    by (cases "dropWhile (\<lambda>c. \<not> isdecimal_char c) s"; simp add: re_search_digits_def)+
  have "s = pre @ r" by (simp add: pre_def r_def)
  moreover have "r = m @ post" by (simp add: m post_def)
  ultimately have 1: "s = pre @ m @ post" by simp
  have 2: "\<forall>c\<in>set pre. \<not> isdecimal_char c"
    unfolding pre_def by (auto dest: set_takeWhileD)
  from r have "isdecimal_char (hd r)"
    using hd_dropWhile [of "\<lambda>c. \<not> isdecimal_char c" s] by (simp add: r_def)
  with r have 3: "m \<noteq> []" by (cases r) (simp_all add: m)
  have 4: "list_all isdecimal_char m"
    unfolding m list_all_iff by (auto dest: set_takeWhileD)
  have 5: "post = [] \<or> \<not> isdecimal_char (hd post)"
    unfolding post_def using hd_dropWhile [of isdecimal_char r] by blast
  from 1 2 3 4 5 show "\<exists>pre post. s = pre @ m @ post \<and> (\<forall>c\<in>set pre. \<not> isdecimal_char c) \<and> m \<noteq> []
        \<and> list_all isdecimal_char m \<and> (post = [] \<or> \<not> isdecimal_char (hd post))" by blast
next
  assume "\<exists>pre post. s = pre @ m @ post \<and> (\<forall>c\<in>set pre. \<not> isdecimal_char c) \<and> m \<noteq> []
        \<and> list_all isdecimal_char m \<and> (post = [] \<or> \<not> isdecimal_char (hd post))"
  then obtain pre post where s: "s = pre @ m @ post" and pre: "\<forall>c\<in>set pre. \<not> isdecimal_char c"
    and m: "m \<noteq> []" "list_all isdecimal_char m" and post: "post = [] \<or> \<not> isdecimal_char (hd post)"
    by blast
  from m have hm: "isdecimal_char (hd m)" by (cases m) simp_all
  from pre have "dropWhile (\<lambda>c. \<not> isdecimal_char c) s = dropWhile (\<lambda>c. \<not> isdecimal_char c) (m @ post)"
    by (simp add: s dropWhile_append2)
  also from m hm have "\<dots> = m @ post" by (cases m) simp_all
  finally have d: "dropWhile (\<lambda>c. \<not> isdecimal_char c) s = m @ post" .
  from post have "takeWhile isdecimal_char post = []" by (cases post) auto
  with m have t: "takeWhile isdecimal_char (m @ post) = m"
    by (simp add: takeWhile_append2 list_all_iff)
  from m d t show "re_search_digits s = Some m"
    by (cases m) (simp_all add: re_search_digits_def)
qed

lemma re_search_digits_run:
  assumes "re_search_digits s = Some m"
  shows "m \<noteq> []" and "list_all isdecimal_char m"
  using assms re_search_digits_Some [of s m] by auto


lemma py_int_run: "re_search_digits s = Some m \<Longrightarrow> py_int m = Inr (int_of_str m)"
  using re_search_digits_run [of s m] by (simp add: py_int_def)

lemma extrair_classe_ValueError:
  "extrair_classe (Some v) = Inl e \<longleftrightarrow>
     isdigit (strip v) \<and> \<not> list_all isdecimal_char (strip v)"
proof (cases "isdigit (strip v)")
  case True
  then have "lower (strip v) \<notin> set valores_invalidos" by (rule digits_not_invalid)
  with True show ?thesis
    by (cases e) (simp add: extrair_classe_def py_int_def isdigit_def Let_def)
next
  case False
  then show ?thesis
    by (auto simp: extrair_classe_def Let_def py_int_run split: option.splits)
qed

section \<open>Properties of the XML extraction\<close>

lemma tem_concessao_iff:
  "tem_concessao ds \<longleftrightarrow> (\<exists>d\<in>set ds. attr_get d ''codigo'' [] = ''IPAS158'')"
  by (induction ds) auto

lemma classe_deferida_status:
  assumes "classe_deferida c"
  obtains st t where "find_child c ''status'' = Some st" and "elem_text st = Some t"
    and "t \<noteq> []" and "str_in ''deferid'' (lower (strip t))" and "status_da_classe c = t"
  using assms
  by (auto simp: classe_deferida_def status_da_classe_def child_text_def or_default_def
      lower_strip split: option.splits)

lemma loop_classes_nice_step:
  "loop_classes_nice p (c # cs) =
     (if classe_deferida c then dict_classe p c (status_da_classe c) # loop_classes_nice p cs
      else loop_classes_nice p cs)"
  by (auto simp: classe_deferida_def status_da_classe_def child_text_def or_default_def
      lower_strip split: option.splits)

lemma loop_classes_nice_eq:
  "loop_classes_nice p cs =
     map (\<lambda>c. dict_classe p c (status_da_classe c)) (filter classe_deferida cs)"
  by (induction cs) (simp_all add: loop_classes_nice_step del: loop_classes_nice.simps(2))

lemma loop_processos_eq: "loop_processos ps = concat (map dados_do_processo ps)"
  by (induction ps) simp_all

lemma rows_DataFrame: "rows (DataFrame ds) = map (map (\<lambda>(k, v). (k, Some v))) ds"
  by (cases ds) (simp_all add: DataFrame_def)

lemma status_dict_classe:
  "map_of (dict_classe p c t) ''status_classe'' = Some (or_default (Some t) ''Deferido'')"
  by (simp add: dict_classe_def)

lemma status_dict_sem_classe:
  "map_of (dict_sem_classe p) ''status_classe'' = Some ''Concedido''"
  by (simp add: dict_sem_classe_def)

lemma classe_dict_sem_classe:
  "map_of (dict_sem_classe p) ''classe'' = Some ''N/A''"
  by (simp add: dict_sem_classe_def)

lemma concedido_sem_deferid: "\<not> str_in ''deferid'' (lower (strip ''Concedido''))"
  by code_simp

lemma status_loop_classes_nice:
  assumes "r \<in> set (loop_classes_nice p cs)"
  shows "map_of r ''status_classe'' \<noteq> Some ''Concedido''"
proof -
  from assms obtain c where c: "classe_deferida c" and r: "r = dict_classe p c (status_da_classe c)"
    by (auto simp: loop_classes_nice_eq)
  from c obtain t where t: "t \<noteq> []" "str_in ''deferid'' (lower (strip t))" "status_da_classe c = t"
    by (rule classe_deferida_status)
  from t have "t \<noteq> ''Concedido''" using concedido_sem_deferid by auto
  with t show ?thesis by (simp add: r status_dict_classe or_default_def)
qed

lemma dict_sem_classe_notin_loop: "dict_sem_classe p \<notin> set (loop_classes_nice p cs)"
  using status_loop_classes_nice [of "dict_sem_classe p" p cs] status_dict_sem_classe [of p]
  by blast

section \<open>Properties of the filters\<close>

lemma get_cell_update: "get_cell (AList.update k v r) k = v"
  by (simp add: get_cell_def update_conv')

lemma map2_map: "map2 g xs (map f xs) = map (\<lambda>x. g x (f x)) xs"
  by (induction xs) simp_all

lemma apply_series_Inr: "apply_series f rs = Inr vs \<Longrightarrow> map f rs = map Inr vs"
  by (induction rs arbitrary: vs) (auto split: sum.splits)

lemma apply_series_Inl: "apply_series f rs = Inl e \<longleftrightarrow> (\<exists>r\<in>set rs. f r = Inl e)"
proof (induction rs)
  case Nil
  then show ?case by simp
next
  case (Cons r rs)
  then show ?case by (cases e) (auto split: sum.splits, (metis error.exhaust)+)
qed

lemma normalizar_classes_desejadas_Nil:
  "normalizar_classes_desejadas cs = Inr ns \<Longrightarrow> ns \<noteq> [] \<Longrightarrow> cs \<noteq> []"
  by auto

lemma filter_map2_update:
  assumes "map f rs = map Inr vs"
  shows "map (AList.delete k)
           (filter (\<lambda>r. isin (get_cell r k) ns) (map2 (\<lambda>r v. AList.update k v r) rs vs))
         = map (AList.delete k) (filter (\<lambda>r. f r \<in> (\<lambda>n. Inr (Some n)) ` set ns) rs)"
  using assms
proof (induction rs arbitrary: vs)
  case Nil
  then show ?case by simp
next
  case (Cons r rs)
  then obtain v vs' where vs: "vs = v # vs'" and v: "f r = Inr v" and r: "map f rs = map Inr vs'"
    by (cases vs) auto
  from Cons.IH [OF r] v show ?case
    by (cases v) (auto simp: vs get_cell_update delete_update_same isin_def)
qed

lemma filtrar_por_classes_Inl:
  assumes col: "col \<in> set (columns df)" and cs: "normalizar_classes_desejadas cs = Inr ns"
    and ns: "ns \<noteq> []"
  shows "filtrar_por_classes df cs col = Inl e \<longleftrightarrow>
           (\<exists>r\<in>set (rows df). normalizar_valor_classe (get_cell r col) = Inl e)"
proof (cases "empty_df df")
  case True
  with col have "rows df = []" by (auto simp: empty_df_def)
  with True show ?thesis by (simp add: filtrar_por_classes_def)
next
  case False
  from cs ns have "cs \<noteq> []" by (rule normalizar_classes_desejadas_Nil)
  with False col cs ns show ?thesis
    by (auto simp: filtrar_por_classes_def Let_def apply_series_Inl [symmetric] split: sum.splits)
qed

lemma rows_filtrar_por_classes:
  assumes col: "col \<in> set (columns df)" and cs: "normalizar_classes_desejadas cs = Inr ns"
    and ns: "ns \<noteq> []" and d: "filtrar_por_classes df cs col = Inr d"
  shows "rows d =
     map (AList.delete (col @ ''_normalizada''))
       (filter (\<lambda>r. normalizar_valor_classe (get_cell r col) \<in> (\<lambda>n. Inr (Some n)) ` set ns)
          (rows df))"
proof (cases "empty_df df")
  case True
  with col have r: "rows df = []" by (auto simp: empty_df_def)
  from True have "filtrar_por_classes df cs col = Inr df" by (simp add: filtrar_por_classes_def)
  with d have "d = df" by simp
  with r show ?thesis by simp
next
  case False
  from cs ns have ne: "cs \<noteq> []" by (rule normalizar_classes_desejadas_Nil)
  from False col cs ns ne d obtain vs
    where vs: "apply_series (\<lambda>r. normalizar_valor_classe (get_cell r col)) (rows df) = Inr vs"
    by (auto simp: filtrar_por_classes_def split: sum.splits)
  have c: "col @ ''_normalizada'' \<in> set (columns (select_rows
             (set_column df (col @ ''_normalizada'') vs) P))" for P
    by (simp add: set_column_def select_rows_def)
  from False col cs ns ne vs have "filtrar_por_classes df cs col =
      Inr (drop_column (select_rows (set_column df (col @ ''_normalizada'') vs)
             (\<lambda>r. isin (get_cell r (col @ ''_normalizada'')) ns)) (col @ ''_normalizada''))"
    by (simp add: filtrar_por_classes_def Let_def c)
  with d have "rows d =
      map (AList.delete (col @ ''_normalizada''))
        (filter (\<lambda>r. isin (get_cell r (col @ ''_normalizada'')) ns)
           (map2 (\<lambda>r v. AList.update (col @ ''_normalizada'') v r) (rows df) vs))"
    by (auto simp: set_column_def select_rows_def drop_column_def)
  with filter_map2_update [OF apply_series_Inr [OF vs]] show ?thesis by simp
qed

lemma isin_None: "\<not> isin None vals"
  by (simp add: isin_def)

lemma DataFrame_dict_sem_classe:
  "columns (DataFrame [dict_sem_classe p]) = map fst (dict_sem_classe p)"
  "rows (DataFrame [dict_sem_classe p]) = [map (\<lambda>(k, v). (k, Some v)) (dict_sem_classe p)]"
  by (simp_all add: DataFrame_def)

lemma classe_row_dict_sem_classe:
  "get_cell (map (\<lambda>(k, v). (k, Some v)) (dict_sem_classe p)) ''classe'' = Some ''N/A''"
  by (simp add: dict_sem_classe_def get_cell_def)

lemma classe_col_dict_sem_classe: "''classe'' \<in> set (map fst (dict_sem_classe p))"
  by (simp add: dict_sem_classe_def)

lemma normalizar_NA: "normalizar_valor_classe (Some ''N/A'') = Inr None"
  by code_simp

lemma filtrar_por_classes_empty: "empty_df df \<Longrightarrow> filtrar_por_classes df cs col = Inr df"
  by (simp add: filtrar_por_classes_def)

lemma filtrar_por_palavras_chave_empty: "empty_df df \<Longrightarrow> filtrar_por_palavras_chave df ps col = df"
  by (simp add: filtrar_por_palavras_chave_def)

lemma lower_char_idem: "lower_char (lower_char c) = lower_char c"
  by (auto simp: lower_char_def Let_def)

lemma lower_idem: "lower (lower s) = lower s"
  by (simp add: lower_def lower_char_idem)

lemma lower_Nil_iff: "lower s = [] \<longleftrightarrow> s = []"
  by (simp add: lower_def)

lemma strip_Nil: "strip [] = []"
  by (simp add: strip_def)

lemma str_in_nonempty: "str_in p s \<Longrightarrow> p \<noteq> [] \<Longrightarrow> s \<noteq> []"
  by (cases s) simp_all

lemma astype_str_fillna: "astype_str (fillna (get_cell r col) []) = texto_da_celula r col"
  by (simp add: astype_str_def fillna_def texto_da_celula_def split: option.splits)

lemma palavras_lower_set:
  "set (map (\<lambda>p. strip (lower p)) (filter (\<lambda>p. p \<noteq> [] \<and> strip p \<noteq> []) ps))
     = (\<lambda>p. strip (lower p)) ` {p \<in> set ps. \<not> palavra_em_branco p}"
  by (auto simp: palavra_em_branco_def strip_Nil)

lemma palavra_lower_nonempty: "\<not> palavra_em_branco p \<Longrightarrow> strip (lower p) \<noteq> []"
  by (simp add: palavra_em_branco_def lower_strip [symmetric] lower_Nil_iff)

lemma lower_palavra_lower: "lower (strip (lower p)) = strip (lower p)"
  by (simp add: lower_strip lower_idem)

lemma str_contains_palavras:
  "str_contains (map (\<lambda>p. strip (lower p)) (filter (\<lambda>p. p \<noteq> [] \<and> strip p \<noteq> []) ps)) (lower s)
     \<longleftrightarrow> (\<exists>p\<in>set ps. \<not> palavra_em_branco p \<and> str_in (strip (lower p)) (lower s))"
  unfolding str_contains_def list_ex_iff palavras_lower_set
  by (auto simp: lower_palavra_lower lower_idem)

lemma fillna_update_id:
  assumes "texto_da_celula r col \<noteq> []"
  shows "AList.update col (fillna (get_cell r col) []) r = r"
proof -
  from assms obtain s where s: "get_cell r col = Some s"
    by (auto simp: texto_da_celula_def split: option.splits)
  then have "map_of r col = Some (Some s)"
    by (auto simp: get_cell_def split: option.splits)
  then have "AList.update col (Some s) r = r" by (rule update_triv)
  with s show ?thesis by (simp add: fillna_def)
qed

lemma palavra_encontrada_texto:
  assumes "\<exists>p\<in>set ps. \<not> palavra_em_branco p \<and> str_in (strip (lower p)) (lower (texto_da_celula r col))"
  shows "texto_da_celula r col \<noteq> []"
proof -
  from assms obtain p where "\<not> palavra_em_branco p"
    and "str_in (strip (lower p)) (lower (texto_da_celula r col))" by blast
  then have "lower (texto_da_celula r col) \<noteq> []"
    using str_in_nonempty palavra_lower_nonempty by blast
  then show ?thesis by (simp add: lower_Nil_iff)
qed

lemma dataframe_rows_Nil: "rows df = [] \<Longrightarrow> df = \<lparr>columns = columns df, rows = []\<rparr>"
  by (cases df) simp

lemma filtrar_por_palavras_chave_rows:
  assumes col: "col \<in> set (columns df)" and ps: "\<exists>p\<in>set ps. \<not> palavra_em_branco p"
  shows "filtrar_por_palavras_chave df ps col =
     \<lparr>columns = columns df,
      rows = filter (\<lambda>r. \<exists>p\<in>set ps. \<not> palavra_em_branco p \<and>
                       str_in (strip (lower p)) (lower (texto_da_celula r col))) (rows df)\<rparr>"
    (is "_ = \<lparr>columns = _, rows = filter ?K _\<rparr>")
proof (cases "empty_df df")
  case True
  with col have r: "rows df = []" by (auto simp: empty_df_def)
  from True have "filtrar_por_palavras_chave df ps col = df"
    by (simp add: filtrar_por_palavras_chave_def)
  with r show ?thesis using dataframe_rows_Nil [OF r] by simp
next
  case False
  let ?upd = "\<lambda>r. AList.update col (fillna (get_cell r col) []) r"
  from ps have ne: "ps \<noteq> []" by auto
  from ps have pl: "map (\<lambda>p. strip (lower p)) (filter (\<lambda>p. p \<noteq> [] \<and> strip p \<noteq> []) ps) \<noteq> []"
    using palavras_lower_set [of ps] by (metis (no_types, lifting) empty_iff empty_set image_eqI mem_Collect_eq)
  have k: "map ?upd (filter ?K (rows df)) = filter ?K (rows df)"
  proof (rule map_idI)
    fix r assume "r \<in> set (filter ?K (rows df))"
    then have "?K r" by simp
    then have "texto_da_celula r col \<noteq> []" by (rule palavra_encontrada_texto)
    then show "?upd r = r" by (rule fillna_update_id)
  qed
  from False col ne pl have "filtrar_por_palavras_chave df ps col =
      \<lparr>columns = columns df, rows = map ?upd (filter ?K (rows df))\<rparr>"
    by (simp add: filtrar_por_palavras_chave_def Let_def set_column_def select_rows_def map2_map
        filter_map comp_def get_cell_update astype_str_fillna str_contains_palavras)
  with k show ?thesis by simp
qed

lemma filtrar_por_palavras_chave_em_branco:
  assumes "\<forall>p\<in>set ps. palavra_em_branco p"
  shows "filtrar_por_palavras_chave df ps col = df"
proof -
  from assms have "filter (\<lambda>p. p \<noteq> [] \<and> strip p \<noteq> []) ps = []"
    by (auto simp: palavra_em_branco_def filter_empty_conv)
  then show ?thesis by (simp add: filtrar_por_palavras_chave_def)
qed

lemma rows_DataFrame_dict_sem_classe_filtradas:
  assumes "normalizar_classes_desejadas cs = Inr ns" and "ns \<noteq> []"
  shows "filtrar_por_classes (DataFrame [dict_sem_classe p]) cs ''classe''
           = Inr \<lparr>columns = map fst (dict_sem_classe p), rows = []\<rparr>"
proof -
  from assms have ne: "cs \<noteq> []" by (rule normalizar_classes_desejadas_Nil)
  have c: "''classe'' \<in> set (columns (DataFrame [dict_sem_classe p]))"
    by (simp add: DataFrame_dict_sem_classe(1) classe_col_dict_sem_classe del: set_map)
  have e: "\<not> empty_df (DataFrame [dict_sem_classe p])"
    by (simp add: empty_df_def DataFrame_def dict_sem_classe_def)
  have a: "apply_series (\<lambda>r. normalizar_valor_classe (get_cell r ''classe''))
             (rows (DataFrame [dict_sem_classe p])) = Inr [None]"
    by (simp add: DataFrame_dict_sem_classe(2) classe_row_dict_sem_classe normalizar_NA)
  have k: "removeAll ''classe_normalizada'' (map fst (dict_sem_classe p))
             = map fst (dict_sem_classe p)"
    "''classe_normalizada'' \<notin> set (map fst (dict_sem_classe p))"
    by (simp_all add: dict_sem_classe_def)
  from ne c e assms a show ?thesis
    by (simp add: filtrar_por_classes_def Let_def set_column_def select_rows_def drop_column_def
        DataFrame_dict_sem_classe get_cell_update isin_None k del: set_map)
qed

section \<open>Properties of the requested classes\<close>

lemma set_lower: "set (lower t) = lower_char ` set t"
  by (simp add: lower_def)

lemma valor_invalido_nomeado_sem_digitos:
  assumes "valor_invalido_nomeado t"
  shows "t \<noteq> []" and "\<not> isdigit t" and "re_search_digits t = None"
proof -
  from assms show ne: "t \<noteq> []" by (auto simp: valor_invalido_nomeado_def lower_def)
  have nd: "\<not> isdigit_char ch" if "ch \<in> set t" for ch
  proof
    assume d: "isdigit_char ch"
    with that have "ch \<in> set (lower t)"
      using lower_char_digit [OF d] by (force simp: set_lower)
    with assms have "ch \<in> set ''n/a'' \<or> ch \<in> set ''nan'' \<or> ch \<in> set ''none''"
      by (auto simp: valor_invalido_nomeado_def)
    with d show False by (auto simp: isdigit_char_def)
  qed
  with ne show "\<not> isdigit t" by (cases t) (auto simp: isdigit_def)
  from nd have "\<forall>ch\<in>set t. \<not> isdecimal_char ch" using decimal_is_digit by blast
  then show "re_search_digits t = None" by (simp add: re_search_digits_None)
qed

lemma invalidos_casos:
  "lower t \<in> set valores_invalidos \<longleftrightarrow> valor_invalido_nomeado t \<or> t = []"
  by (auto simp: valores_invalidos_def valor_invalido_nomeado_def lower_Nil_iff)

lemma classe_desejada_normalizada_None:
  "classe_desejada_normalizada c = Inr None \<longleftrightarrow>
     strip c = [] \<or> (\<not> isdigit (strip c) \<and> fora_do_intervalo (strip c))"
  by (auto simp: classe_desejada_normalizada_def Let_def fora_do_intervalo_def strip_Nil
      py_int_run split: option.splits sum.splits)

lemma normalizar_classes_desejadas_Nil_iff:
  "normalizar_classes_desejadas cs = Inr [] \<longleftrightarrow>
     (\<forall>c\<in>set cs. classe_desejada_normalizada c = Inr None)"
  by (induction cs) (auto split: option.splits sum.splits)

section \<open>Claims\<close>

text \<open>
  C1. A process with one dispatch of code \<^verbatim>\<open>IPAS158\<close> and three classification nodes,
  two of status \<^verbatim>\<open>Deferida\<close> and one of status \<^verbatim>\<open>Indeferido\<close>, is specified to yield
  exactly 2 records. On \<open>exemplo_revista\<close>, which holds exactly that process, the
  extraction yields 3 records, the second one for the class of status \<^verbatim>\<open>Indeferido\<close>: the
  lowered status \<^verbatim>\<open>indeferido\<close> contains \<^verbatim>\<open>deferid\<close>.
\<close>

theorem classe_indeferida_emitida:
  "length (rows (fst (processar_xml exemplo_revista))) = 3
   \<and> map (\<lambda>r. get_cell r ''status_classe'') (rows (fst (processar_xml exemplo_revista)))
       = [Some ''Deferida'', Some ''Indeferido'', Some ''Deferida'']
   \<and> str_in ''deferid'' (lower (strip ''Indeferido''))"
  by code_simp

text \<open>
  C2, as amended. The normalisation of a requested class token is the one of the column
  values, raising where it raises, with two exceptions. A token that is \<^verbatim>\<open>n/a\<close>,
  \<^verbatim>\<open>nan\<close> or \<^verbatim>\<open>none\<close> once trimmed, in any letter case, is kept trimmed in the requested
  set, where the column value has no value. A token that is not made of digits only and whose
  first run of digits is out of 1 to 45 is dropped from the requested set, where the column
  value is the trimmed token. A blank token is dropped, as a blank column value has no
  value.
\<close>

theorem normalizacao_das_classes_desejadas:
  "classe_desejada_normalizada c =
     (if valor_invalido_nomeado (strip c) then Inr (Some (strip c))
      else if \<not> isdigit (strip c) \<and> fora_do_intervalo (strip c) then Inr None
      else normalizar_valor_classe (Some c))"
proof (cases "valor_invalido_nomeado (strip c)")
  case True
  from valor_invalido_nomeado_sem_digitos [OF True] have "c \<noteq> []"
    by (auto simp: strip_Nil)
  with True valor_invalido_nomeado_sem_digitos [OF True] show ?thesis
    by (simp add: classe_desejada_normalizada_def)
next
  case False
  show ?thesis
  proof (cases "strip c = []")
    case True
    with False show ?thesis
      by (simp add: classe_desejada_normalizada_def normalizar_valor_classe_def
          valores_invalidos_def lower_def isdigit_def fora_do_intervalo_def re_search_digits_def)
  next
    case ne: False
    then have "c \<noteq> []" by (auto simp: strip_Nil)
    with False ne show ?thesis
      by (auto simp: classe_desejada_normalizada_def normalizar_valor_classe_def Let_def
          invalidos_casos fora_do_intervalo_def py_int_run split: option.splits sum.splits)
  qed
qed

text \<open>
  \<^verbatim>\<open>3\<close> and \<^verbatim>\<open>Classe 03\<close> normalise to \<^verbatim>\<open>3\<close> as a token and as a column value;
  the two exceptions at \<^verbatim>\<open>N/A\<close> and \<^verbatim>\<open>Cl. 99\<close>; the superscript two (178) raises in
  both.
\<close>

theorem normalizacao_das_classes_desejadas_witness:
  "classe_desejada_normalizada ''Classe 03'' = Inr (Some ''3'')
   \<and> normalizar_valor_classe (Some ''3'') = Inr (Some ''3'')
   \<and> classe_desejada_normalizada ''3'' = Inr (Some ''3'')
   \<and> normalizar_valor_classe (Some ''Classe 03'') = Inr (Some ''3'')
   \<and> classe_desejada_normalizada '' '' = Inr None
   \<and> normalizar_valor_classe (Some '' '') = Inr None
   \<and> valor_invalido_nomeado (strip ''N/A'')
   \<and> classe_desejada_normalizada ''N/A'' = Inr (Some ''N/A'')
   \<and> fora_do_intervalo (strip ''Cl. 99'') \<and> classe_desejada_normalizada ''Cl. 99'' = Inr None
   \<and> classe_desejada_normalizada [CHR 0xB2] = Inl ValueError
   \<and> normalizar_valor_classe (Some [CHR 0xB2]) = Inl ValueError"
  using normalizacao_das_classes_desejadas [of "''Classe 03''"]
    normalizacao_das_classes_desejadas [of "''3''"]
    normalizacao_das_classes_desejadas [of "'' ''"]
    normalizacao_das_classes_desejadas [of "''N/A''"]
    normalizacao_das_classes_desejadas [of "''Cl. 99''"]
    normalizacao_das_classes_desejadas [of "[CHR 0xB2]"]
  by code_simp

text \<open>
  C2 as first stated, the same result for every token: the results differ at
  \<^verbatim>\<open>Cl. 99\<close> and at \<^verbatim>\<open>N/A\<close>.
\<close>

theorem normalizadores_divergem:
  "classe_desejada_normalizada ''Cl. 99'' = Inr None
   \<and> normalizar_valor_classe (Some ''Cl. 99'') = Inr (Some ''Cl. 99'')
   \<and> classe_desejada_normalizada ''N/A'' = Inr (Some ''N/A'')
   \<and> normalizar_valor_classe (Some ''N/A'') = Inr None"
  by code_simp

text \<open>
  C3, as amended. Filtering by a class set whose every member is dropped by the normalisation
  of the requested classes, that is a blank token or a token not made of digits only whose
  first run of digits is out of 1 to 45, returns the record set unchanged.
\<close>

theorem filtro_de_classes_sem_classe_valida:
  "(\<forall>c\<in>set cs. strip c = [] \<or> (\<not> isdigit (strip c) \<and> fora_do_intervalo (strip c)))
     \<longrightarrow> filtrar_por_classes df cs col = Inr df"
proof
  assume "\<forall>c\<in>set cs. strip c = [] \<or> (\<not> isdigit (strip c) \<and> fora_do_intervalo (strip c))"
  then have "normalizar_classes_desejadas cs = Inr []"
    by (simp add: normalizar_classes_desejadas_Nil_iff classe_desejada_normalizada_None)
  then show "filtrar_por_classes df cs col = Inr df"
    by (simp add: filtrar_por_classes_def)
qed

text \<open>
  A blank token and \<^verbatim>\<open>Cl. 99\<close> on \<open>exemplo_df\<close>.
\<close>

theorem filtro_de_classes_sem_classe_valida_witness:
  "strip '' '' = [] \<and> \<not> isdigit (strip ''Cl. 99'') \<and> fora_do_intervalo (strip ''Cl. 99'')
   \<and> filtrar_por_classes exemplo_df ['' '', ''Cl. 99''] ''classe'' = Inr exemplo_df"
  using filtro_de_classes_sem_classe_valida [of "['' '', ''Cl. 99'']" exemplo_df "''classe''"]
  by code_simp

text \<open>
  C3 as first stated, with \<^verbatim>\<open>n/a\<close>, \<^verbatim>\<open>nan\<close> and \<^verbatim>\<open>none\<close> among the tokens that
  give nothing: for the set that holds only \<^verbatim>\<open>N/A\<close>, which the class normaliser maps to
  no value, the class filter returns no row of the three of \<open>exemplo_df\<close>.
\<close>

theorem classes_invalidas_filtram_tudo:
  "normalizar_valor_classe (Some ''N/A'') = Inr None
   \<and> extrair_classe (Some ''N/A'') = Inr None
   \<and> filtrar_por_classes exemplo_df [''N/A''] ''classe''
       = Inr \<lparr>columns = [''numero_processo'', ''classe'', ''especificacao''], rows = []\<rparr>
   \<and> length (rows exemplo_df) = 3"
  by code_simp

text \<open>
  C4, as amended. Every process that has a dispatch of code \<^verbatim>\<open>IPAS158\<close> and a process
  number that is not empty yields at least one record. When its loop over the classes emits
  nothing, it yields exactly one record, the one of class \<^verbatim>\<open>N/A\<close> and status
  \<^verbatim>\<open>Concedido\<close>; otherwise it yields the records of the loop, and that record is not
  among them.
\<close>

theorem concessao_gera_registro:
  assumes "tem_concessao (findall_desc p ''despacho'')"
    and "extrair_numero_processo p \<noteq> []"
  shows "dados_do_processo p \<noteq> []
    \<and> (if loop_classes_nice p (findall_desc p ''classe-nice'') = []
        then dados_do_processo p = [dict_sem_classe p]
        else dados_do_processo p = loop_classes_nice p (findall_desc p ''classe-nice''))
    \<and> map_of (dict_sem_classe p) ''classe'' = Some ''N/A''
    \<and> map_of (dict_sem_classe p) ''status_classe'' = Some ''Concedido''
    \<and> dict_sem_classe p \<notin> set (loop_classes_nice p (findall_desc p ''classe-nice''))"
  using assms
  by (simp add: dados_do_processo_def extrair_dados_processo_inpi_def Let_def
      classe_dict_sem_classe status_dict_sem_classe dict_sem_classe_notin_loop)

text \<open>
  The process \<open>exemplo_processo_sem_classe\<close> satisfies both hypotheses and yields
  the one record without class.
\<close>

theorem concessao_gera_registro_witness:
  "tem_concessao (findall_desc exemplo_processo_sem_classe ''despacho'')
   \<and> extrair_numero_processo exemplo_processo_sem_classe \<noteq> []
   \<and> loop_classes_nice exemplo_processo_sem_classe
        (findall_desc exemplo_processo_sem_classe ''classe-nice'') = []
   \<and> dados_do_processo exemplo_processo_sem_classe = [dict_sem_classe exemplo_processo_sem_classe]"
proof -
  have 1: "tem_concessao (findall_desc exemplo_processo_sem_classe ''despacho'')" by code_simp
  have 2: "extrair_numero_processo exemplo_processo_sem_classe \<noteq> []" by code_simp
  have 3: "loop_classes_nice exemplo_processo_sem_classe
        (findall_desc exemplo_processo_sem_classe ''classe-nice'') = []" by code_simp
  from concessao_gera_registro [OF 1 2] 3 1 2 show ?thesis by simp
qed

text \<open>
  C4 as first stated, without the process number: the process
  \<open>exemplo_processo_sem_numero\<close> has a dispatch of code \<^verbatim>\<open>IPAS158\<close>, no
  \<^verbatim>\<open>numero\<close> attribute and no classification node, and yields no record.
\<close>

theorem processo_sem_numero_sem_registro:
  "tem_concessao (findall_desc exemplo_processo_sem_numero ''despacho'')
   \<and> dados_do_processo exemplo_processo_sem_numero = []
   \<and> rows (fst (processar_xml (Element ''revista'' [] None [exemplo_processo_sem_numero]))) = []"
  by code_simp

text \<open>
  C5. A process has the grant when one of its dispatches has the code \<^verbatim>\<open>IPAS158\<close>, the
  comparison being exact. The loop over its classification nodes emits one record for
  every node that is granted in the sense of \<open>classe_deferida\<close> (a status sub-node
  with a text that is not empty and whose lowercased, trimmed form contains
  \<^verbatim>\<open>deferid\<close>), in document order, and nothing for the others. The records of a process
  are those, or the one record without class, when it has the grant, and none when it has
  not; the rows of the frame are the records of the processes of the document.
\<close>

theorem registros_por_classe:
  "tem_concessao (findall_desc p ''despacho'')
     = (\<exists>d\<in>set (findall_desc p ''despacho''). attr_get d ''codigo'' [] = ''IPAS158'')
   \<and> loop_classes_nice p cs
       = map (\<lambda>c. dict_classe p c (status_da_classe c)) (filter classe_deferida cs)
   \<and> dados_do_processo p
       = (if tem_concessao (findall_desc p ''despacho'')
          then (let por_classe = map (\<lambda>c. dict_classe p c (status_da_classe c))
                                   (filter classe_deferida (findall_desc p ''classe-nice''))
                in if por_classe = [] \<and> extrair_numero_processo p \<noteq> []
                   then [dict_sem_classe p] else por_classe)
          else [])
   \<and> (\<not> tem_concessao (findall_desc p ''despacho'') \<longrightarrow> dados_do_processo p = [])
   \<and> rows (fst (processar_xml root))
       = map (map (\<lambda>(k, v). (k, Some v)))
           (concat (map dados_do_processo (findall_desc root ''processo'')))"
proof (intro conjI)
  show "tem_concessao (findall_desc p ''despacho'')
     = (\<exists>d\<in>set (findall_desc p ''despacho''). attr_get d ''codigo'' [] = ''IPAS158'')"
    by (rule tem_concessao_iff)
  show "loop_classes_nice p cs
       = map (\<lambda>c. dict_classe p c (status_da_classe c)) (filter classe_deferida cs)"
    by (rule loop_classes_nice_eq)
  show "dados_do_processo p
       = (if tem_concessao (findall_desc p ''despacho'')
          then (let por_classe = map (\<lambda>c. dict_classe p c (status_da_classe c))
                                   (filter classe_deferida (findall_desc p ''classe-nice''))
                in if por_classe = [] \<and> extrair_numero_processo p \<noteq> []
                   then [dict_sem_classe p] else por_classe)
          else [])"
    by (simp add: dados_do_processo_def extrair_dados_processo_inpi_def loop_classes_nice_eq Let_def)
  show "\<not> tem_concessao (findall_desc p ''despacho'') \<longrightarrow> dados_do_processo p = []"
    by (simp add: dados_do_processo_def)
  show "rows (fst (processar_xml root))
       = map (map (\<lambda>(k, v). (k, Some v)))
           (concat (map dados_do_processo (findall_desc root ''processo'')))"
    by (simp add: processar_xml_def rows_DataFrame loop_processos_eq)
qed

text \<open>
  A process whose dispatch code is \<^verbatim>\<open>ipas158\<close> yields nothing although one of its
  classes is granted; \<open>exemplo_processo\<close> has the grant and yields one record for
  each of its three granted classes.
\<close>

theorem registros_por_classe_witness:
  "\<not> tem_concessao (findall_desc exemplo_processo_sem_concessao ''despacho'')
   \<and> dados_do_processo exemplo_processo_sem_concessao = []
   \<and> length (filter classe_deferida (findall_desc exemplo_processo_sem_concessao ''classe-nice'')) = 1
   \<and> tem_concessao (findall_desc exemplo_processo ''despacho'')
   \<and> length (filter classe_deferida (findall_desc exemplo_processo ''classe-nice'')) = 3
   \<and> length (dados_do_processo exemplo_processo) = 3
   \<and> length (rows (fst (processar_xml exemplo_revista))) = 3"
  using registros_por_classe [of exemplo_processo_sem_concessao "[]" exemplo_revista]
    registros_por_classe [of exemplo_processo "[]" exemplo_revista]
  by code_simp

text \<open>
  C6, as amended. The class normaliser first trims the token. A trimmed token that is
  blank, \<^verbatim>\<open>n/a\<close>, \<^verbatim>\<open>nan\<close> or \<^verbatim>\<open>none\<close> in any letter case gives no value. A trimmed
  token made of the decimal digits 0 to 9 only gives its digits without leading zeros,
  whatever the number. A trimmed token that \<^verbatim>\<open>str.isdigit\<close> rejects is decided by its
  first run of decimal digits: when the number of the run is in 1 to 45 the result is that
  run without leading zeros, when it is out of the range or when there is no such digit the
  result is the trimmed token, and no later run is looked at.
\<close>

theorem extrair_classe_casos:
  "extrair_classe None = Inr None
   \<and> (lower (strip v) \<in> set valores_invalidos \<longrightarrow> extrair_classe (Some v) = Inr None)
   \<and> (strip v \<noteq> [] \<and> list_all isdecimal_char (strip v)
      \<longrightarrow> extrair_classe (Some v) = Inr (Some (sem_zeros_a_esquerda (strip v))))
   \<and> (lower (strip v) \<notin> set valores_invalidos \<and> \<not> isdigit (strip v)
        \<and> re_search_digits (strip v) = Some m \<and> 1 \<le> int_of_str m \<and> int_of_str m \<le> 45
      \<longrightarrow> extrair_classe (Some v) = Inr (Some (sem_zeros_a_esquerda m)))
   \<and> (lower (strip v) \<notin> set valores_invalidos \<and> \<not> isdigit (strip v)
        \<and> re_search_digits (strip v) = Some m \<and> \<not> (1 \<le> int_of_str m \<and> int_of_str m \<le> 45)
      \<longrightarrow> extrair_classe (Some v) = Inr (Some (strip v)))
   \<and> (lower (strip v) \<notin> set valores_invalidos \<and> \<not> isdigit (strip v)
        \<and> re_search_digits (strip v) = None
      \<longrightarrow> extrair_classe (Some v) = Inr (Some (strip v)))"
proof (intro conjI impI)
  show "extrair_classe None = Inr None" by (simp add: extrair_classe_def)
next
  assume "lower (strip v) \<in> set valores_invalidos"
  then show "extrair_classe (Some v) = Inr None" by (simp add: extrair_classe_def)
next
  assume d: "strip v \<noteq> [] \<and> list_all isdecimal_char (strip v)"
  then have i: "isdigit (strip v)" by (simp add: isdigit_def decimals_are_digits)
  then have "lower (strip v) \<notin> set valores_invalidos" by (rule digits_not_invalid)
  moreover from d have "str_of_nat (int_of_str (strip v)) = sem_zeros_a_esquerda (strip v)"
    by (simp add: str_of_nat_int_of_str)
  ultimately show "extrair_classe (Some v) = Inr (Some (sem_zeros_a_esquerda (strip v)))"
    using d i by (simp add: extrair_classe_def py_int_def)
next
  assume a: "lower (strip v) \<notin> set valores_invalidos \<and> \<not> isdigit (strip v)
        \<and> re_search_digits (strip v) = Some m \<and> 1 \<le> int_of_str m \<and> int_of_str m \<le> 45"
  then have "str_of_nat (int_of_str m) = sem_zeros_a_esquerda m"
    using re_search_digits_run [of "strip v" m] by (simp add: str_of_nat_int_of_str)
  moreover from a have "py_int m = Inr (int_of_str m)" by (auto intro: py_int_run)
  ultimately show "extrair_classe (Some v) = Inr (Some (sem_zeros_a_esquerda m))"
    using a by (simp add: extrair_classe_def)
next
  assume "lower (strip v) \<notin> set valores_invalidos \<and> \<not> isdigit (strip v)
        \<and> re_search_digits (strip v) = Some m \<and> \<not> (1 \<le> int_of_str m \<and> int_of_str m \<le> 45)"
  moreover from this have "py_int m = Inr (int_of_str m)" by (auto intro: py_int_run)
  ultimately show "extrair_classe (Some v) = Inr (Some (strip v))"
    by (auto simp: extrair_classe_def Let_def)
next
  assume "lower (strip v) \<notin> set valores_invalidos \<and> \<not> isdigit (strip v)
        \<and> re_search_digits (strip v) = None"
  then show "extrair_classe (Some v) = Inr (Some (strip v))"
    by (simp add: extrair_classe_def)
qed

text \<open>
  The examples of the specification, tokens with white space or a no-break space (160)
  around them, a token with a second run of digits, and a token with a superscript two (178)
  after a letter.
\<close>

theorem extrair_classe_casos_witness:
  "extrair_classe (Some ''03'') = Inr (Some ''3'')
   \<and> extrair_classe (Some ''045'') = Inr (Some ''45'')
   \<and> extrair_classe (Some ''00'') = Inr (Some ''0'')
   \<and> extrair_classe (Some ''99'') = Inr (Some ''99'')
   \<and> extrair_classe (Some ''N/A'') = Inr None \<and> extrair_classe (Some ''  '') = Inr None
   \<and> extrair_classe (Some ''Classe 42'') = Inr (Some ''42'')
   \<and> extrair_classe (Some ''Cl. 99'') = Inr (Some ''Cl. 99'')
   \<and> extrair_classe (Some '' Cl. 99 '') = Inr (Some ''Cl. 99'')
   \<and> extrair_classe (Some ([CHR 0xA0] @ ''Cl. 99'')) = Inr (Some ''Cl. 99'')
   \<and> extrair_classe (Some ''Cl. 99 ou 3'') = Inr (Some ''Cl. 99 ou 3'')
   \<and> extrair_classe (Some (''Classe '' @ [CHR 0xB2])) = Inr (Some (''Classe '' @ [CHR 0xB2]))
   \<and> extrair_classe (Some ''sem classe'') = Inr (Some ''sem classe'')"
  using extrair_classe_casos [of "''03''" "[]"] extrair_classe_casos [of "''045''" "[]"]
    extrair_classe_casos [of "''00''" "[]"] extrair_classe_casos [of "''99''" "[]"]
    extrair_classe_casos [of "''N/A''" "[]"] extrair_classe_casos [of "''  ''" "[]"]
    extrair_classe_casos [of "''Classe 42''" "''42''"]
    extrair_classe_casos [of "''Cl. 99''" "''99''"]
    extrair_classe_casos [of "'' Cl. 99 ''" "''99''"]
    extrair_classe_casos [of "[CHR 0xA0] @ ''Cl. 99''" "''99''"]
    extrair_classe_casos [of "''Cl. 99 ou 3''" "''99''"]
    extrair_classe_casos [of "''Classe '' @ [CHR 0xB2]" "[]"]
    extrair_classe_casos [of "''sem classe''" "[]"]
  by code_simp

text \<open>
  C6 as first stated, the original string returned unchanged and every token made of
  digits mapped to a number: the token \<^verbatim>\<open> Cl. 99\<close> with a leading space comes back without
  it, and on the token made of the superscript two (178), a digit for \<^verbatim>\<open>str.isdigit\<close>,
  the normaliser raises \<^verbatim>\<open>ValueError\<close>.
\<close>

theorem extrair_classe_apara:
  "extrair_classe (Some '' Cl. 99'') = Inr (Some ''Cl. 99'') \<and> ''Cl. 99'' \<noteq> '' Cl. 99''
   \<and> isdigit [CHR 0xB2] \<and> extrair_classe (Some [CHR 0xB2]) = Inl ValueError"
  by code_simp




text \<open>
  C8, as amended. When the specification column exists and at least one keyword is not
  blank, the keyword filter keeps exactly the rows, unchanged and in order, whose
  specification text, a missing value read as the empty string, contains the lowercased and
  trimmed form of a keyword that is not blank, letter case ignored. When every keyword is
  blank, or when the column does not exist, it returns the record set unchanged.
\<close>

theorem filtro_por_palavras_chave:
  "(col \<in> set (columns df) \<and> (\<exists>p\<in>set ps. \<not> palavra_em_branco p) \<longrightarrow>
      filtrar_por_palavras_chave df ps col =
        \<lparr>columns = columns df,
         rows = filter (\<lambda>r. \<exists>p\<in>set ps. \<not> palavra_em_branco p \<and>
                          str_in (strip (lower p)) (lower (texto_da_celula r col))) (rows df)\<rparr>)
   \<and> ((\<forall>p\<in>set ps. palavra_em_branco p) \<longrightarrow> filtrar_por_palavras_chave df ps col = df)
   \<and> (col \<notin> set (columns df) \<longrightarrow> filtrar_por_palavras_chave df ps col = df)"
proof (intro conjI impI)
  assume "col \<in> set (columns df) \<and> (\<exists>p\<in>set ps. \<not> palavra_em_branco p)"
  then show "filtrar_por_palavras_chave df ps col =
        \<lparr>columns = columns df,
         rows = filter (\<lambda>r. \<exists>p\<in>set ps. \<not> palavra_em_branco p \<and>
                          str_in (strip (lower p)) (lower (texto_da_celula r col))) (rows df)\<rparr>"
    by (simp add: filtrar_por_palavras_chave_rows)
next
  assume "\<forall>p\<in>set ps. palavra_em_branco p"
  then show "filtrar_por_palavras_chave df ps col = df"
    by (rule filtrar_por_palavras_chave_em_branco)
next
  assume "col \<notin> set (columns df)"
  then show "filtrar_por_palavras_chave df ps col = df"
    by (simp add: filtrar_por_palavras_chave_def)
qed

text \<open>
  The keyword \<^verbatim>\<open> FERRAMENTAS \<close> keeps the row whose specification is
  \<^verbatim>\<open>Ferramentas manuais\<close> and drops the two others, one of which has no specification.
  The keyword \<^verbatim>\<open>iluminacao\<close>, written with the small cedilla (231) and the small a with
  tilde (227), keeps the row whose specification is the same word in capital letters.
\<close>

theorem filtro_por_palavras_chave_witness:
  "''especificacao'' \<in> set (columns exemplo_df) \<and> \<not> palavra_em_branco '' FERRAMENTAS ''
   \<and> str_in ''ferramentas'' ''ferramentas manuais''
   \<and> filtrar_por_palavras_chave exemplo_df ['' FERRAMENTAS ''] ''especificacao''
       = \<lparr>columns = columns exemplo_df, rows = [exemplo_row ''03'' (Some ''Ferramentas manuais'')]\<rparr>
   \<and> filtrar_por_palavras_chave exemplo_df_acentos
        [''ilumina'' @ [CHR 0xE7, CHR 0xE3] @ ''o''] ''especificacao''
       = \<lparr>columns = columns exemplo_df_acentos,
          rows = [exemplo_row ''11'' (Some (''ILUMINA'' @ [CHR 0xC7, CHR 0xC3] @ ''O''))]\<rparr>
   \<and> palavra_em_branco '' ''
   \<and> filtrar_por_palavras_chave exemplo_df ['' ''] ''especificacao'' = exemplo_df
   \<and> ''texto'' \<notin> set (columns exemplo_df)
   \<and> filtrar_por_palavras_chave exemplo_df [''papel''] ''texto'' = exemplo_df"
  using filtro_por_palavras_chave [of "''especificacao''" exemplo_df "['' FERRAMENTAS '']"]
    filtro_por_palavras_chave [of "''especificacao''" exemplo_df_acentos
      "[''ilumina'' @ [CHR 0xE7, CHR 0xE3] @ ''o'']"]
    filtro_por_palavras_chave [of "''especificacao''" exemplo_df "['' '']"]
    filtro_por_palavras_chave [of "''texto''" exemplo_df "[''papel'']"]
  by code_simp

text \<open>
  C8 as first stated, for every list of keywords that is not empty: with the keywords
  \<^verbatim>\<open> \<close> and \<^verbatim>\<open>papel\<close> the filter drops the row whose specification is
  \<^verbatim>\<open>Ferramentas manuais\<close>, although that text contains the trimmed form of the first
  keyword, the empty string.
\<close>

theorem palavra_em_branco_ignorada:
  "rows (filtrar_por_palavras_chave exemplo_df ['' '', ''papel''] ''especificacao'')
     = [exemplo_row ''N/A'' (Some ''papel'')]
   \<and> exemplo_row ''03'' (Some ''Ferramentas manuais'') \<in> set (rows exemplo_df)
   \<and> str_in (strip (lower '' ''))
        (lower (texto_da_celula (exemplo_row ''03'' (Some ''Ferramentas manuais'')) ''especificacao''))"
  by code_simp

text \<open>
  C9. On a record set that is not empty, with a class set and a keyword set that are not
  empty and a class step that returns rows, the combined filter calls the class filter, then
  the keyword filter on its result, and returns what the keyword filter returns. When the
  class step returns no row, the combined filter returns that empty result after the one
  call of the class filter: the keyword filter is not called, whatever the keywords are.
  In every case the result is the one of the keyword filter applied to the result of the
  class filter. With one set absent or empty only the other filter is called; with both
  absent or empty, or on an empty record set, no filter is called and the record set is
  returned as it is. What the class filter raises, the combined filter raises.
\<close>

theorem filtrar_processos_ordem:
  "(cs \<noteq> [] \<and> ps \<noteq> [] \<and> \<not> empty_df df \<and> filtrar_por_classes df cs cc = Inr d
      \<and> \<not> empty_df d \<longrightarrow>
      filtrar_processos df (Some cs) (Some ps) cc ce
        = Inr (filtrar_por_palavras_chave d ps ce,
               [Chama_filtrar_por_classes, Chama_filtrar_por_palavras_chave]))
   \<and> (cs \<noteq> [] \<and> \<not> empty_df df \<and> filtrar_por_classes df cs cc = Inr d \<and> rows d = [] \<longrightarrow>
        filtrar_processos df (Some cs) palavras cc ce = Inr (d, [Chama_filtrar_por_classes]))
   \<and> (cs \<noteq> [] \<and> ps \<noteq> [] \<and> filtrar_por_classes df cs cc = Inr d \<longrightarrow>
        map_sum id fst (filtrar_processos df (Some cs) (Some ps) cc ce)
          = Inr (filtrar_por_palavras_chave d ps ce))
   \<and> (cs \<noteq> [] \<and> palavras \<in> {None, Some []} \<and> \<not> empty_df df
        \<and> filtrar_por_classes df cs cc = Inr d \<longrightarrow>
        filtrar_processos df (Some cs) palavras cc ce = Inr (d, [Chama_filtrar_por_classes]))
   \<and> (cs \<noteq> [] \<and> \<not> empty_df df \<and> filtrar_por_classes df cs cc = Inl e \<longrightarrow>
        filtrar_processos df (Some cs) palavras cc ce = Inl e)
   \<and> (classes \<in> {None, Some []} \<and> ps \<noteq> [] \<and> \<not> empty_df df \<longrightarrow>
        filtrar_processos df classes (Some ps) cc ce
          = Inr (filtrar_por_palavras_chave df ps ce, [Chama_filtrar_por_palavras_chave]))
   \<and> (classes \<in> {None, Some []} \<and> palavras \<in> {None, Some []} \<longrightarrow>
        filtrar_processos df classes palavras cc ce = Inr (df, []))
   \<and> (empty_df df \<longrightarrow> filtrar_processos df classes palavras cc ce = Inr (df, []))"
proof (intro conjI impI)
  assume "cs \<noteq> [] \<and> ps \<noteq> [] \<and> \<not> empty_df df \<and> filtrar_por_classes df cs cc = Inr d
      \<and> \<not> empty_df d"
  then show "filtrar_processos df (Some cs) (Some ps) cc ce
        = Inr (filtrar_por_palavras_chave d ps ce,
               [Chama_filtrar_por_classes, Chama_filtrar_por_palavras_chave])"
    by (simp add: filtrar_processos_def)
next
  assume "cs \<noteq> [] \<and> \<not> empty_df df \<and> filtrar_por_classes df cs cc = Inr d \<and> rows d = []"
  then show "filtrar_processos df (Some cs) palavras cc ce = Inr (d, [Chama_filtrar_por_classes])"
    by (simp add: filtrar_processos_def empty_df_def)
next
  assume a: "cs \<noteq> [] \<and> ps \<noteq> [] \<and> filtrar_por_classes df cs cc = Inr d"
  show "map_sum id fst (filtrar_processos df (Some cs) (Some ps) cc ce)
          = Inr (filtrar_por_palavras_chave d ps ce)"
  proof (cases "empty_df df")
    case True
    with a have "d = df" by (simp add: filtrar_por_classes_empty)
    with True show ?thesis
      by (simp add: filtrar_processos_def filtrar_por_palavras_chave_empty)
  next
    case False
    with a show ?thesis
      by (simp add: filtrar_processos_def filtrar_por_palavras_chave_empty)
  qed
next
  assume "cs \<noteq> [] \<and> palavras \<in> {None, Some []} \<and> \<not> empty_df df
        \<and> filtrar_por_classes df cs cc = Inr d"
  then show "filtrar_processos df (Some cs) palavras cc ce = Inr (d, [Chama_filtrar_por_classes])"
    by (auto simp: filtrar_processos_def)
next
  assume "cs \<noteq> [] \<and> \<not> empty_df df \<and> filtrar_por_classes df cs cc = Inl e"
  then show "filtrar_processos df (Some cs) palavras cc ce = Inl e"
    by (simp add: filtrar_processos_def)
next
  assume "classes \<in> {None, Some []} \<and> ps \<noteq> [] \<and> \<not> empty_df df"
  then show "filtrar_processos df classes (Some ps) cc ce
          = Inr (filtrar_por_palavras_chave df ps ce, [Chama_filtrar_por_palavras_chave])"
    by (auto simp: filtrar_processos_def)
next
  assume "classes \<in> {None, Some []} \<and> palavras \<in> {None, Some []}"
  then show "filtrar_processos df classes palavras cc ce = Inr (df, [])"
    by (auto simp: filtrar_processos_def)
next
  assume "empty_df df"
  then show "filtrar_processos df classes palavras cc ce = Inr (df, [])"
    by (simp add: filtrar_processos_def)
qed

text \<open>
  The cases on \<open>exemplo_df\<close> and on the frame without column and row.
\<close>

theorem filtrar_processos_ordem_witness:
  "\<not> empty_df exemplo_df
   \<and> filtrar_processos exemplo_df (Some [''3'', ''N/A'']) (Some [''ferramentas''])
        ''classe'' ''especificacao''
       = Inr (\<lparr>columns = columns exemplo_df,
               rows = [exemplo_row ''03'' (Some ''Ferramentas manuais'')]\<rparr>,
              [Chama_filtrar_por_classes, Chama_filtrar_por_palavras_chave])
   \<and> filtrar_por_classes exemplo_df [''7''] ''classe''
       = Inr \<lparr>columns = columns exemplo_df, rows = []\<rparr>
   \<and> filtrar_processos exemplo_df (Some [''7'']) (Some [''papel'']) ''classe'' ''especificacao''
       = Inr (\<lparr>columns = columns exemplo_df, rows = []\<rparr>, [Chama_filtrar_por_classes])
   \<and> filtrar_processos exemplo_df (Some [''3'']) None ''classe'' ''especificacao''
       = Inr (\<lparr>columns = columns exemplo_df,
               rows = [exemplo_row ''03'' (Some ''Ferramentas manuais'')]\<rparr>,
              [Chama_filtrar_por_classes])
   \<and> filtrar_por_classes exemplo_df [[CHR 0xB2]] ''classe'' = Inl ValueError
   \<and> filtrar_processos exemplo_df (Some [[CHR 0xB2]]) None ''classe'' ''especificacao''
       = Inl ValueError
   \<and> filtrar_processos exemplo_df None (Some [''papel'']) ''classe'' ''especificacao''
       = Inr (\<lparr>columns = columns exemplo_df, rows = [exemplo_row ''N/A'' (Some ''papel'')]\<rparr>,
              [Chama_filtrar_por_palavras_chave])
   \<and> filtrar_processos exemplo_df (Some []) None ''classe'' ''especificacao''
       = Inr (exemplo_df, [])
   \<and> empty_df \<lparr>columns = [], rows = []\<rparr>
   \<and> filtrar_processos \<lparr>columns = [], rows = []\<rparr> (Some [''3'']) (Some [''papel''])
        ''classe'' ''especificacao'' = Inr (\<lparr>columns = [], rows = []\<rparr>, [])"
  using
    filtrar_processos_ordem [of "[''3'', ''N/A'']" "[''ferramentas'']" exemplo_df "''classe''"
      "\<lparr>columns = columns exemplo_df, rows = [exemplo_row ''03'' (Some ''Ferramentas manuais'')]\<rparr>"
      "''especificacao''" "Some [''ferramentas'']" ValueError None]
    filtrar_processos_ordem [of "[''7'']" "[''papel'']" exemplo_df "''classe''"
      "\<lparr>columns = columns exemplo_df, rows = []\<rparr>"
      "''especificacao''" "Some [''papel'']" ValueError "Some []"]
    filtrar_processos_ordem [of "[''3'']" "[''papel'']" exemplo_df "''classe''"
      "\<lparr>columns = columns exemplo_df, rows = [exemplo_row ''03'' (Some ''Ferramentas manuais'')]\<rparr>"
      "''especificacao''" None ValueError None]
    filtrar_processos_ordem [of "[[CHR 0xB2]]" "[''papel'']" exemplo_df "''classe''"
      "\<lparr>columns = [], rows = []\<rparr>" "''especificacao''" None ValueError None]
    filtrar_processos_ordem [of "[''3'']" "[''papel'']" "\<lparr>columns = [], rows = []\<rparr>"
      "''classe''" "\<lparr>columns = [], rows = []\<rparr>" "''especificacao''" "Some [''papel'']"
      ValueError "Some [''3'']"]
  by code_simp

text \<open>
  C10. When the class column exists and the requested set is not empty once normalised,
  the class filter raises exactly when the normalisation of the class of some row raises;
  when it returns, the rows of the result are the rows whose normalised class is in the
  normalised requested set, in order, without the transient column. A row whose class
  normalises to no value is never selected. The class \<^verbatim>\<open>N/A\<close> normalises to no value, so
  the record without class of a granted process does not survive the filter.
\<close>

theorem filtro_de_classes_exclui_sem_classe:
  assumes "col \<in> set (columns df)" and "normalizar_classes_desejadas cs = Inr ns"
    and "ns \<noteq> []"
  shows "(filtrar_por_classes df cs col = Inl ValueError \<longleftrightarrow>
            (\<exists>r\<in>set (rows df). normalizar_valor_classe (get_cell r col) = Inl ValueError))
    \<and> (\<forall>d. filtrar_por_classes df cs col = Inr d \<longrightarrow>
          rows d = map (AList.delete (col @ ''_normalizada''))
                     (filter (\<lambda>r. normalizar_valor_classe (get_cell r col)
                                    \<in> (\<lambda>n. Inr (Some n)) ` set ns) (rows df)))
    \<and> (\<forall>r. normalizar_valor_classe (get_cell r col) = Inr None \<longrightarrow>
          normalizar_valor_classe (get_cell r col) \<notin> (\<lambda>n. Inr (Some n)) ` set ns)
    \<and> normalizar_valor_classe (Some ''N/A'') = Inr None
    \<and> filtrar_por_classes (DataFrame [dict_sem_classe p]) cs ''classe''
        = Inr \<lparr>columns = map fst (dict_sem_classe p), rows = []\<rparr>"
proof (intro conjI allI impI)
  show "filtrar_por_classes df cs col = Inl ValueError \<longleftrightarrow>
            (\<exists>r\<in>set (rows df). normalizar_valor_classe (get_cell r col) = Inl ValueError)"
    using assms by (rule filtrar_por_classes_Inl)
next
  fix d assume "filtrar_por_classes df cs col = Inr d"
  with assms show "rows d = map (AList.delete (col @ ''_normalizada''))
                     (filter (\<lambda>r. normalizar_valor_classe (get_cell r col)
                                    \<in> (\<lambda>n. Inr (Some n)) ` set ns) (rows df))"
    by (rule rows_filtrar_por_classes)
next
  fix r assume "normalizar_valor_classe (get_cell r col) = Inr None"
  then show "normalizar_valor_classe (get_cell r col) \<notin> (\<lambda>n. Inr (Some n)) ` set ns"
    by auto
next
  show "normalizar_valor_classe (Some ''N/A'') = Inr None" by (rule normalizar_NA)
next
  from assms(2,3) show "filtrar_por_classes (DataFrame [dict_sem_classe p]) cs ''classe''
        = Inr \<lparr>columns = map fst (dict_sem_classe p), rows = []\<rparr>"
    by (rule rows_DataFrame_dict_sem_classe_filtradas)
qed

text \<open>
  The request \<^verbatim>\<open>Classe 03\<close> keeps the row of class \<^verbatim>\<open>03\<close> of \<open>exemplo_df\<close>
  and drops the rows of class \<^verbatim>\<open>Cl. 99\<close> and \<^verbatim>\<open>N/A\<close>.
\<close>

theorem filtro_de_classes_exclui_sem_classe_witness:
  "''classe'' \<in> set (columns exemplo_df)
   \<and> normalizar_classes_desejadas [''Classe 03''] = Inr [''3'']
   \<and> filtrar_por_classes exemplo_df [''Classe 03''] ''classe''
       = Inr \<lparr>columns = columns exemplo_df,
              rows = [exemplo_row ''03'' (Some ''Ferramentas manuais'')]\<rparr>
   \<and> rows exemplo_df = [exemplo_row ''03'' (Some ''Ferramentas manuais''),
                         exemplo_row ''Cl. 99'' None, exemplo_row ''N/A'' (Some ''papel'')]
   \<and> normalizar_valor_classe (get_cell (exemplo_row ''N/A'' (Some ''papel'')) ''classe'')
       = Inr None
   \<and> filtrar_por_classes (DataFrame [dict_sem_classe exemplo_processo_sem_classe])
        [''Classe 03''] ''classe''
       = Inr \<lparr>columns = map fst (dict_sem_classe exemplo_processo_sem_classe), rows = []\<rparr>"
proof -
  have 1: "''classe'' \<in> set (columns exemplo_df)" by code_simp
  have 2: "normalizar_classes_desejadas [''Classe 03''] = Inr [''3'']" by code_simp
  have 3: "[''3''] \<noteq> ([] :: string list)" by simp
  have 4: "filtrar_por_classes exemplo_df [''Classe 03''] ''classe''
       = Inr \<lparr>columns = columns exemplo_df,
              rows = [exemplo_row ''03'' (Some ''Ferramentas manuais'')]\<rparr>" by code_simp
  have 5: "rows exemplo_df = [exemplo_row ''03'' (Some ''Ferramentas manuais''),
                         exemplo_row ''Cl. 99'' None, exemplo_row ''N/A'' (Some ''papel'')]"
    by (simp add: exemplo_df_def)
  have 6: "normalizar_valor_classe (get_cell (exemplo_row ''N/A'' (Some ''papel'')) ''classe'')
       = Inr None" by code_simp
  from filtro_de_classes_exclui_sem_classe [OF 1 2 3, of exemplo_processo_sem_classe] 1 2 4 5 6
  show ?thesis by simp
qed

end
